(* ===== verification/Prelude.thy ===== *)
theory Prelude
  imports Complex_Main
begin

text \<open>
  Shared vocabulary of the development: the JavaScript values the screens
  and the context exchange (strings and their truthiness, the ASCII part of
  \<open>String.prototype.toLowerCase\<close>, \<open>split('@')[0]\<close>, the decimal text of
  \<open>Date.now().toString()\<close>), the blocking notices of React Native's
  \<open>Alert.alert\<close>, and the navigation requests a screen hands to its
  navigator (\<open>navigation.goBack()\<close>, \<open>navigation.navigate(name)\<close>).
  Every component theory imports this one.
\<close>

named_theorems handler_defs "unfolding rules of the screen handlers"
named_theorems js_simps "evaluation rules of the JavaScript helpers"

subsection \<open>Strings\<close>

type_synonym js_string = string

text \<open>\<open>!s\<close> for a string \<open>s\<close>: only the empty string is falsy.\<close>

definition js_falsy :: "js_string \<Rightarrow> bool" where
  "js_falsy s \<longleftrightarrow> s = []"

text \<open>
  \<open>toLowerCase\<close> on one character. Characters are modelled as bytes; only
  \<open>A\<close>..\<open>Z\<close> change. (Over full Unicode the only non-ASCII code points
  that lower to an ASCII letter are the Kelvin sign, to \<open>k\<close>, and dotted
  capital I, to two code points; neither can produce the admin address, whose
  letters avoid \<open>k\<close>.)
\<close>

definition lower_char :: "char \<Rightarrow> char" where
  "lower_char c =
     (let n = (of_char c :: nat) in if 65 \<le> n \<and> n \<le> 90 then char_of (n + 32) else c)"

definition to_lower_case :: "js_string \<Rightarrow> js_string" where
  "to_lower_case s = map lower_char s"

text \<open>
  \<open>s.split(c)\<close> for a one-character separator, as the JavaScript library does
  it (an environment model): the pieces between the separators, empty pieces
  included, and the whole string when it has no separator. Its recursion is not
  structural, so it is a \<open>function\<close> with a measure.
\<close>

lemma dropWhile_neq_Cons:
  "c \<in> set s \<Longrightarrow> dropWhile (\<lambda>x. x \<noteq> c) s = c # tl (dropWhile (\<lambda>x. x \<noteq> c) s)"
  by (induction s) auto

lemma length_tl_dropWhile_less:
  "c \<in> set s \<Longrightarrow> length (tl (dropWhile (\<lambda>x. x \<noteq> c) s)) < length s"
proof -
  assume "c \<in> set s"
  then have "length (dropWhile (\<lambda>x. x \<noteq> c) s) = Suc (length (tl (dropWhile (\<lambda>x. x \<noteq> c) s)))"
    by (subst dropWhile_neq_Cons) simp_all
  moreover have "length (dropWhile (\<lambda>x. x \<noteq> c) s) \<le> length s"
    by (rule length_dropWhile_le)
  ultimately show ?thesis by simp
qed

function js_split :: "char \<Rightarrow> js_string \<Rightarrow> js_string list" where
  "js_split c s =
     (if c \<in> set s
      then takeWhile (\<lambda>x. x \<noteq> c) s # js_split c (tl (dropWhile (\<lambda>x. x \<noteq> c) s))
      else [s])"
  by pat_completeness auto

termination js_split
  by (relation "measure (\<lambda>(c, s). length s)") (simp_all add: length_tl_dropWhile_less del: length_tl)

declare js_split.simps [simp del]

text \<open>\<open>s.split('@')[0]\<close>: the first piece (\<open>split\<close> always returns at least one).\<close>

definition split_at_first :: "js_string \<Rightarrow> js_string" where
  "split_at_first s = hd (js_split (CHR ''@'') s)"

text \<open>
  \<open>n.toString()\<close> for a non-negative integer \<open>n\<close> (the value of \<open>Date.now()\<close>):
  its decimal digits, most significant first, with no leading zero.
\<close>

fun digit_char :: "nat \<Rightarrow> char" where
  "digit_char d = char_of (48 + d)"

fun nat_to_string :: "nat \<Rightarrow> js_string" where
  "nat_to_string n =
     (if n < 10 then [digit_char n] else nat_to_string (n div 10) @ [digit_char (n mod 10)])"

declare nat_to_string.simps [simp del]

text \<open>The inverse reading of a digit string (as \<open>parseInt(s, 10)\<close> reads one).\<close>

fun digits_value :: "nat \<Rightarrow> js_string \<Rightarrow> nat" where
  "digits_value acc [] = acc"
| "digits_value acc (c # cs) = digits_value (10 * acc + ((of_char c :: nat) - 48)) cs"

subsection \<open>Alerts and navigation requests\<close>

text \<open>
  A navigation request a screen makes of the navigator that hosts it.
  \<open>Navigate\<close> carries the route name as the source writes it, so that a name
  no navigator declares can be represented.
\<close>

datatype nav_request = GoBack | Navigate js_string

text \<open>
  The notices the screens raise with \<open>Alert.alert(title, message, ...)\<close>, one
  constructor per call site (the Portuguese literals are given in ASCII):
  \<^item> \<open>AccessDenied\<close>: 'Acesso Negado' / 'Voce nao tem permissao para acessar esta area.'
    (\<open>DoctorSignUp\<close>, effect on \<open>isAdmin\<close>);
  \<^item> \<open>NoPermissionToRegister\<close>: 'Erro' / 'Voce nao tem permissao para cadastrar medicos.';
  \<^item> \<open>FillAllFields\<close>: 'Erro' / 'Por favor, preencha todos os campos.';
  \<^item> \<open>PasswordsDoNotMatch\<close>: 'Erro' / 'As senhas nao coincidem.';
  \<^item> \<open>DoctorRegistered\<close>: 'Sucesso' / 'Medico cadastrado com sucesso!';
  \<^item> \<open>AdminWelcome\<close>: 'Bem-vindo' / 'Voce tem acesso as funcionalidades administrativas.'
    (\<open>Welcome.handleLogin\<close>);
  \<^item> \<open>LoginFailed\<close>: 'Erro' / 'Falha ao fazer login. Tente novamente.'.
\<close>

datatype notice =
  AccessDenied | NoPermissionToRegister | FillAllFields | PasswordsDoNotMatch
| DoctorRegistered | AdminWelcome | LoginFailed

fun notice_title :: "notice \<Rightarrow> js_string" where
  "notice_title AccessDenied = ''Acesso Negado''"
| "notice_title DoctorRegistered = ''Sucesso''"
| "notice_title AdminWelcome = ''Bem-vindo''"
| "notice_title _ = ''Erro''"

text \<open>A notice and the navigation request its OK button makes, if any.\<close>

record alert =
  alert_notice :: notice
  alert_on_ok :: "nav_request option"

definition simple_alert :: "notice \<Rightarrow> alert" where
  "simple_alert n = \<lparr>alert_notice = n, alert_on_ok = None\<rparr>"

text \<open>
  What a screen's event handler produces: the screen's next state, the notices
  it raises, in order, and the navigation requests it makes, in order.
\<close>

record 's outcome =
  next_state :: 's
  alerts :: "alert list"
  requests :: "nav_request list"

definition quiet :: "'s \<Rightarrow> 's outcome" where
  "quiet s = \<lparr>next_state = s, alerts = [], requests = []\<rparr>"

definition notify :: "'s \<Rightarrow> notice \<Rightarrow> 's outcome" where
  "notify s n = \<lparr>next_state = s, alerts = [simple_alert n], requests = []\<rparr>"

definition request :: "'s \<Rightarrow> nav_request \<Rightarrow> 's outcome" where
  "request s rq = \<lparr>next_state = s, alerts = [], requests = [rq]\<rparr>"

text \<open>The notices of the access checks of the doctor screen.\<close>

definition gate_notice :: "notice \<Rightarrow> bool" where
  "gate_notice n \<longleftrightarrow> n = AccessDenied \<or> n = NoPermissionToRegister"

declare js_falsy_def [js_simps] to_lower_case_def [js_simps]
  simple_alert_def [handler_defs] quiet_def [handler_defs] notify_def [handler_defs]
  request_def [handler_defs]

subsection \<open>Lemmas on the helpers\<close>

lemma lower_char_idem [simp]: "lower_char (lower_char c) = lower_char c"
  by (simp add: lower_char_def Let_def of_char_of)

lemma to_lower_case_idem [simp]: "to_lower_case (to_lower_case s) = to_lower_case s"
  by (simp add: to_lower_case_def comp_def)

lemma length_to_lower_case [simp]: "length (to_lower_case s) = length s"
  by (simp add: to_lower_case_def)

lemma to_lower_case_append [simp]:
  "to_lower_case (s @ t) = to_lower_case s @ to_lower_case t"
  by (simp add: to_lower_case_def)

lemma takeWhile_neq_all: "c \<notin> set s \<Longrightarrow> takeWhile (\<lambda>x. x \<noteq> c) s = s"
  by (induction s) auto

lemma js_split_nonempty [simp]: "js_split c s \<noteq> []"
  by (subst js_split.simps) simp

lemma hd_js_split: "hd (js_split c s) = takeWhile (\<lambda>x. x \<noteq> c) s"
  by (subst js_split.simps) (simp add: takeWhile_neq_all)

lemma split_at_first_takeWhile [js_simps]:
  "split_at_first s = takeWhile (\<lambda>c. c \<noteq> CHR ''@'') s"
  by (simp add: split_at_first_def hd_js_split)

lemma split_at_first_prefix: "split_at_first s @ dropWhile (\<lambda>c. c \<noteq> CHR ''@'') s = s"
  by (simp add: split_at_first_takeWhile)

lemma split_at_first_no_at [simp]: "CHR ''@'' \<notin> set (split_at_first s)"
  by (auto simp: split_at_first_takeWhile dest: set_takeWhileD)

lemma of_digit_char [simp]: "d < 10 \<Longrightarrow> (of_char (digit_char d) :: nat) = 48 + d"
  by simp

lemma nat_to_string_nonempty [simp]: "nat_to_string n \<noteq> []"
  by (subst nat_to_string.simps) simp

lemma digits_value_append:
  "digits_value acc (s @ t) = digits_value (digits_value acc s) t"
  by (induction s arbitrary: acc) simp_all

lemma digits_value_nat_to_string [simp]:
  "digits_value 0 (nat_to_string n) = n"
proof (induction n rule: nat_to_string.induct)
  case (1 n)
  show ?case
  proof (cases "n < 10")
    case True
    then show ?thesis by (simp add: nat_to_string.simps [of n])
  next
    case False
    then have "digits_value 0 (nat_to_string (n div 10)) = n div 10"
      using "1.IH" by simp
    with False show ?thesis
      by (simp add: nat_to_string.simps [of n] digits_value_append)
  qed
qed

lemma nat_to_string_inj: "nat_to_string m = nat_to_string n \<longleftrightarrow> m = n"
  by (metis digits_value_nat_to_string)

end
