(* ===== verification/AuthContext.thy ===== *)
theory AuthContext
  imports Prelude
begin

text \<open>
  The session context of \<open>src/contexts/AuthContext.tsx\<close>: the \<open>User\<close> type, the
  provider's two pieces of React state (\<open>user\<close>, \<open>loading\<close>), \<open>signIn\<close> with
  its \<open>try\<close>/\<open>catch\<close>/\<open>finally\<close>, \<open>signOut\<close>, the derived \<open>isAdmin\<close>, and
  \<open>useAuth\<close> with its guard. A state update \<open>setX(v)\<close> is a function on the
  provider state; a rejected promise is an \<open>Inl\<close> of \<open>auth_error\<close>.
\<close>

subsection \<open>Data\<close>

datatype user_type = Patient | Doctor | Admin

record user =
  id :: js_string
  name :: js_string
  email :: js_string
  type :: user_type

record auth_state =
  user :: "user option"
  loading :: bool

text \<open>
  Errors: \<open>NotAFunction\<close> is the \<open>TypeError\<close> of calling a member of the
  default context \<open>{}\<close>; \<open>OutsideProvider\<close> is the error \<open>useAuth\<close> means to
  raise; \<open>SignInRejected\<close> is a rejection of \<open>signIn\<close>, which its contract
  allows and its present body never produces.
\<close>

datatype auth_error = OutsideProvider | NotAFunction | SignInRejected

definition auth_init :: auth_state where
  "auth_init = \<lparr>user = None, loading = False\<rparr>"

definition set_user :: "user option \<Rightarrow> auth_state \<Rightarrow> auth_state" where
  "set_user u s = s\<lparr>user := u\<rparr>"

definition set_loading :: "bool \<Rightarrow> auth_state \<Rightarrow> auth_state" where
  "set_loading b s = s\<lparr>loading := b\<rparr>"

subsection \<open>signIn and signOut\<close>

definition admin_email :: js_string where
  "admin_email = ''dionathanma@hotmail.com''"

definition admin_user :: user where
  "admin_user = \<lparr>id = ''1'', name = ''Dionathan'', email = ''dionathanma@hotmail.com'', type = Admin\<rparr>"

text \<open>The user built for any other address; \<open>now\<close> is the value of \<open>Date.now()\<close>.\<close>

definition patient_user :: "nat \<Rightarrow> js_string \<Rightarrow> user" where
  "patient_user now e =
     \<lparr>id = nat_to_string now, name = split_at_first e, email = e, type = Patient\<rparr>"

text \<open>
  The \<open>try\<close> block: the updates it issues, in order, and its outcome. The
  state it has reached is kept when it throws, as React keeps queued updates.
\<close>

definition sign_in_body ::
  "nat \<Rightarrow> js_string \<Rightarrow> js_string \<Rightarrow> auth_state \<Rightarrow> (auth_error + unit) \<times> auth_state" where
  "sign_in_body now e password s =
     (let s1 = set_loading True s
      in if to_lower_case e = admin_email
         then (Inr (), set_user (Some admin_user) s1)
         else (Inr (), set_user (Some (patient_user now e)) s1))"

text \<open>\<open>catch (error) { throw error }\<close> passes the outcome on; \<open>finally\<close> clears \<open>loading\<close>.\<close>

definition sign_in ::
  "nat \<Rightarrow> js_string \<Rightarrow> js_string \<Rightarrow> auth_state \<Rightarrow> (auth_error + unit) \<times> auth_state" where
  "sign_in now e password s =
     (case sign_in_body now e password s of
        (Inl err, s') \<Rightarrow> (Inl err, set_loading False s')
      | (Inr u, s') \<Rightarrow> (Inr u, set_loading False s'))"

definition sign_out :: "auth_state \<Rightarrow> auth_state" where
  "sign_out s = set_user None s"

text \<open>\<open>isAdmin: user?.type === 'admin'\<close>.\<close>

definition is_admin :: "auth_state \<Rightarrow> bool" where
  "is_admin s = (case user s of None \<Rightarrow> False | Some u \<Rightarrow> type u = Admin)"

subsection \<open>The context value and useAuth\<close>

text \<open>
  What \<open>useContext(AuthContext)\<close> returns: the default value \<open>{}\<close> outside an
  \<open>AuthProvider\<close>, the provider's value inside one.
\<close>

datatype auth_context = DefaultContext | Provided auth_state

text \<open>JavaScript truthiness of the context object: every object is truthy.\<close>

fun context_falsy :: "auth_context \<Rightarrow> bool" where
  "context_falsy DefaultContext = False"
| "context_falsy (Provided s) = False"

definition use_auth :: "auth_context \<Rightarrow> auth_error + auth_context" where
  "use_auth c = (if context_falsy c then Inl OutsideProvider else Inr c)"

text \<open>
  \<open>const { isAdmin } = useAuth()\<close>: \<open>undefined\<close> (falsy) on the default
  context; \<open>signIn\<close> on it is \<open>undefined\<close>, and calling it throws.
\<close>

fun ctx_is_admin :: "auth_context \<Rightarrow> bool" where
  "ctx_is_admin DefaultContext = False"
| "ctx_is_admin (Provided s) = is_admin s"

fun ctx_sign_in ::
  "nat \<Rightarrow> js_string \<Rightarrow> js_string \<Rightarrow> auth_context \<Rightarrow> (auth_error + unit) \<times> auth_context" where
  "ctx_sign_in now e p DefaultContext = (Inl NotAFunction, DefaultContext)"
| "ctx_sign_in now e p (Provided s) = (let (r, s') = sign_in now e p s in (r, Provided s'))"

text \<open>The provider state a context value carries; the default context carries none.\<close>

fun context_state :: "auth_state \<Rightarrow> auth_context \<Rightarrow> auth_state" where
  "context_state a DefaultContext = a"
| "context_state a (Provided a') = a'"

subsection \<open>Sessions as a state machine\<close>

datatype auth_event = SignInEv nat js_string js_string | SignOutEv

fun auth_step :: "auth_state \<Rightarrow> auth_event \<Rightarrow> auth_state" where
  "auth_step s (SignInEv now e p) = snd (sign_in now e p s)"
| "auth_step s SignOutEv = sign_out s"

inductive auth_reachable :: "auth_state \<Rightarrow> bool" where
  init: "auth_reachable auth_init"
| step: "auth_reachable s \<Longrightarrow> auth_reachable (auth_step s ev)"

definition auth_inv :: "auth_state \<Rightarrow> bool" where
  "auth_inv s \<longleftrightarrow> \<not> loading s \<and>
     (\<forall>u. user s = Some u \<longrightarrow> type u \<noteq> Doctor \<and> (type u = Admin \<longleftrightarrow> u = admin_user))"

lemmas auth_defs = set_user_def set_loading_def sign_in_body_def sign_in_def sign_out_def
  is_admin_def auth_init_def

subsection \<open>Lemmas\<close>

lemma sign_in_eq:
  "sign_in now e p s =
     (Inr (), s\<lparr>user := Some (if to_lower_case e = admin_email then admin_user else patient_user now e),
                loading := False\<rparr>)"
  by (simp add: auth_defs Let_def)

lemma admin_user_type [simp]: "type admin_user = Admin"
  by (simp add: admin_user_def)

lemma patient_user_type [simp]: "type (patient_user now e) = Patient"
  by (simp add: patient_user_def)

lemma patient_user_not_admin [simp]: "patient_user now e \<noteq> admin_user"
  by (metis admin_user_type patient_user_type user_type.distinct(3))

lemma auth_inv_init: "auth_inv auth_init"
  by (simp add: auth_inv_def auth_init_def)

lemma auth_step_inv: "auth_inv s \<Longrightarrow> auth_inv (auth_step s ev)"
  by (cases ev) (auto simp: auth_inv_def sign_in_eq sign_out_def set_user_def)

lemma auth_reachable_inv: "auth_reachable s \<Longrightarrow> auth_inv s"
  by (induction rule: auth_reachable.induct) (auto intro: auth_inv_init auth_step_inv)

lemma sign_in_user:
  "user (snd (sign_in now e p s)) =
     Some (if to_lower_case e = admin_email then admin_user else patient_user now e)"
  by (simp add: sign_in_eq)

subsection \<open>Properties\<close>

text \<open>
  C1. After \<open>signIn(email, password)\<close> the session is an administrator's exactly
  when the address, lower-cased, is the fixed administrator address; any other
  address gives a non-administrator, whatever the password and the earlier session.
\<close>

theorem sign_in_is_admin_iff:
  "is_admin (snd (sign_in now e p s)) \<longleftrightarrow> to_lower_case e = admin_email"
  by (simp add: sign_in_eq is_admin_def)

text \<open>
  C2. Signing in with any other address stores a patient whose id is the decimal
  text of the sign-in time, whose name is the text before the first \<open>@\<close>, and
  whose address is the one entered, unchanged in case.
\<close>

theorem sign_in_patient_user:
  assumes "to_lower_case e \<noteq> admin_email"
  shows "user (snd (sign_in now e p s)) =
    Some \<lparr>id = nat_to_string now, name = split_at_first e, email = e, type = Patient\<rparr>"
  using assms by (simp add: sign_in_user patient_user_def)

theorem sign_in_patient_user_witness:
  "to_lower_case ''Ana@clinic.com'' \<noteq> admin_email \<and>
   user (snd (sign_in 42 ''Ana@clinic.com'' ''pw'' auth_init)) =
     Some \<lparr>id = ''42'', name = ''Ana'', email = ''Ana@clinic.com'', type = Patient\<rparr>"
proof -
  have h: "to_lower_case ''Ana@clinic.com'' \<noteq> admin_email"
    by (simp add: to_lower_case_def admin_email_def)
  have n: "nat_to_string 42 = ''42''"
    by code_simp
  show ?thesis
    using h sign_in_patient_user [OF h, of 42 "''pw''" auth_init] n
    by (simp add: split_at_first_takeWhile)
qed

text \<open>
  C3. \<open>signIn\<close> never rejects under the present body, and its \<open>finally\<close>
  leaves \<open>loading\<close> false whatever it was before.
\<close>

theorem sign_in_resolves_not_loading:
  "fst (sign_in now e p s) = Inr () \<and> \<not> loading (snd (sign_in now e p s))"
  by (simp add: sign_in_eq)

text \<open>
  C4. In every state the provider reaches from its initial state by sign-ins and
  sign-outs, \<open>loading\<close> is false between operations, no identity has the
  \<open>doctor\<close> role, and the administrator identity is the fixed one.
\<close>

theorem auth_reachable_roles:
  assumes "auth_reachable s" and "user s = Some u"
  shows "\<not> loading s \<and> type u \<noteq> Doctor \<and> (type u = Admin \<longleftrightarrow> u = admin_user)"
  using auth_reachable_inv [OF assms(1)] assms(2) by (simp add: auth_inv_def)

theorem auth_reachable_roles_witness:
  "auth_reachable (auth_step auth_init (SignInEv 7 ''DionathanMA@Hotmail.com'' ''x'')) \<and>
   user (auth_step auth_init (SignInEv 7 ''DionathanMA@Hotmail.com'' ''x'')) = Some admin_user \<and>
   \<not> loading (auth_step auth_init (SignInEv 7 ''DionathanMA@Hotmail.com'' ''x'')) \<and>
   type admin_user \<noteq> Doctor"
proof -
  let ?s = "auth_step auth_init (SignInEv 7 ''DionathanMA@Hotmail.com'' ''x'')"
  have r: "auth_reachable ?s" by (rule auth_reachable.step [OF auth_reachable.init])
  have l: "to_lower_case ''DionathanMA@Hotmail.com'' = admin_email"
    by code_simp
  have u: "user ?s = Some admin_user"
    using l by (simp add: sign_in_user)
  from auth_reachable_roles [OF r u] r u show ?thesis by simp
qed

text \<open>
  C5. Two patients who sign in at different times get different ids: the
  decimal text of \<open>Date.now()\<close> determines the time it was printed from.
\<close>

theorem patient_ids_distinct:
  assumes "to_lower_case e1 \<noteq> admin_email" and "to_lower_case e2 \<noteq> admin_email"
    and "now1 \<noteq> now2"
  shows "map_option id (user (snd (sign_in now1 e1 p1 s1))) \<noteq>
         map_option id (user (snd (sign_in now2 e2 p2 s2)))"
  using assms by (simp add: sign_in_user patient_user_def nat_to_string_inj)

theorem patient_ids_distinct_witness:
  "map_option id (user (snd (sign_in 1 ''a@x'' ''p'' auth_init))) \<noteq>
   map_option id (user (snd (sign_in 2 ''a@x'' ''p'' auth_init)))"
proof -
  have h: "to_lower_case ''a@x'' \<noteq> admin_email"
    by (simp add: to_lower_case_def admin_email_def)
  show ?thesis by (rule patient_ids_distinct [OF h h]) simp
qed

text \<open>
  C6. The password is never examined and the earlier session is replaced
  outright: the state after \<open>signIn\<close> depends on the address and the time only.
\<close>

theorem sign_in_ignores_password_and_prior:
  "snd (sign_in now e p s) = snd (sign_in now e p' s') \<longleftrightarrow> more s = more s'"
  by (simp add: sign_in_eq)

end
