(* ===== verification/Navigation.thy ===== *)
theory Navigation
  imports Prelude
begin

text \<open>
  The navigators of \<open>src/navigation.tsx\<close>: \<open>MainTabs\<close>, a bottom-tab navigator
  whose tab list depends on \<open>isAdmin\<close>, nested as the first screen of a native
  stack whose other screen is \<open>SignUp\<close>. The screens' navigation requests
  (\<open>nav_request\<close>) are handled the way the navigator library handles them:
  by the navigator of the requesting screen first, then by its parent; a request
  no navigator handles leaves the state unchanged (\<open>None\<close> here). The library's
  behaviour is an environment of the model, stated in \<open>tab_handle\<close>,
  \<open>stack_handle\<close> and \<open>tabs_change\<close>.
\<close>

subsection \<open>Routes declared by the source\<close>

datatype tab_route = Home | DoctorManagement

datatype stack_route = MainTabs | SignUpRoute

fun tab_route_name :: "tab_route \<Rightarrow> js_string" where
  "tab_route_name Home = ''Home''"
| "tab_route_name DoctorManagement = ''DoctorManagement''"

fun stack_route_name :: "stack_route \<Rightarrow> js_string" where
  "stack_route_name MainTabs = ''MainTabs''"
| "stack_route_name SignUpRoute = ''SignUp''"

text \<open>\<open>MainTabs\<close>: \<open>Home\<close>, then \<open>{isAdmin && <Tab.Screen name="DoctorManagement"/>}\<close>.\<close>

definition main_tabs :: "bool \<Rightarrow> tab_route list" where
  "main_tabs admin = Home # (if admin then [DoctorManagement] else [])"

text \<open>\<open>Navigation\<close>: the stack's screens in declaration order.\<close>

definition stack_screens :: "stack_route list" where
  "stack_screens = [MainTabs, SignUpRoute]"

subsection \<open>Navigator state and the library's handling of requests\<close>

text \<open>The stack, bottom first, and the focused tab of \<open>MainTabs\<close>.\<close>

record nav_state =
  stack :: "stack_route list"
  tab :: tab_route

definition nav_init :: nav_state where
  "nav_init = \<lparr>stack = [hd stack_screens], tab = Home\<rparr>"

definition tab_of_name :: "tab_route list \<Rightarrow> js_string \<Rightarrow> tab_route option" where
  "tab_of_name tabs n = find (\<lambda>t. tab_route_name t = n) tabs"

definition stack_of_name :: "js_string \<Rightarrow> stack_route option" where
  "stack_of_name n = find (\<lambda>r. stack_route_name r = n) stack_screens"

text \<open>
  The tab navigator (back behaviour \<open>firstRoute\<close>): \<open>goBack\<close> from a tab other
  than the first focuses the first; \<open>navigate\<close> focuses a tab it declares.
\<close>

fun tab_handle :: "tab_route list \<Rightarrow> nav_request \<Rightarrow> tab_route \<Rightarrow> tab_route option" where
  "tab_handle tabs GoBack t = (if t = hd tabs then None else Some (hd tabs))"
| "tab_handle tabs (Navigate n) t = tab_of_name tabs n"

text \<open>
  The stack navigator: \<open>goBack\<close> pops when there is a screen to return to;
  \<open>navigate\<close> to a declared screen returns to it if it is on the stack and
  pushes it otherwise.
\<close>

fun stack_handle :: "nav_request \<Rightarrow> stack_route list \<Rightarrow> stack_route list option" where
  "stack_handle GoBack st = (if 1 < length st then Some (butlast st) else None)"
| "stack_handle (Navigate n) st =
     (case stack_of_name n of
        None \<Rightarrow> None
      | Some r \<Rightarrow> Some (if r \<in> set st then takeWhile (\<lambda>x. x \<noteq> r) st @ [r] else st @ [r]))"

datatype nav_origin = FromTab | FromStack

text \<open>A request from a tab screen goes to the tab navigator, then bubbles to the stack.\<close>

fun nav_dispatch :: "bool \<Rightarrow> nav_origin \<Rightarrow> nav_request \<Rightarrow> nav_state \<Rightarrow> nav_state option" where
  "nav_dispatch admin FromTab rq s =
     (case tab_handle (main_tabs admin) rq (tab s) of
        Some t \<Rightarrow> Some (s\<lparr>tab := t\<rparr>)
      | None \<Rightarrow> map_option (\<lambda>st. s\<lparr>stack := st\<rparr>) (stack_handle rq (stack s)))"
| "nav_dispatch admin FromStack rq s =
     map_option (\<lambda>st. s\<lparr>stack := st\<rparr>) (stack_handle rq (stack s))"

text \<open>The state after a request; an unhandled request changes nothing.\<close>

definition nav_apply :: "bool \<Rightarrow> nav_origin \<Rightarrow> nav_request \<Rightarrow> nav_state \<Rightarrow> nav_state" where
  "nav_apply admin org rq s = (case nav_dispatch admin org rq s of None \<Rightarrow> s | Some s' \<Rightarrow> s')"

text \<open>
  When the tab list is recomputed, a focused tab that is no longer declared gives
  way to the first tab (the library's \<open>getStateForRouteNamesChange\<close>).
\<close>

definition tabs_change :: "tab_route list \<Rightarrow> nav_state \<Rightarrow> nav_state" where
  "tabs_change tabs s = (if tab s \<in> set tabs then s else s\<lparr>tab := hd tabs\<rparr>)"

text \<open>
  Well-formed navigator state for a given role: \<open>MainTabs\<close> at the bottom of a
  stack without repetitions of declared screens, and a declared tab focused.
\<close>

definition nav_wf :: "bool \<Rightarrow> nav_state \<Rightarrow> bool" where
  "nav_wf admin s \<longleftrightarrow>
     stack s \<noteq> [] \<and> hd (stack s) = MainTabs \<and> distinct (stack s) \<and> tab s \<in> set (main_tabs admin)"

text \<open>The requests the screens make: back, to the sign-up screen, and to \<open>Login\<close>.\<close>

definition screen_request :: "nav_request \<Rightarrow> bool" where
  "screen_request rq \<longleftrightarrow> rq = GoBack \<or> rq = Navigate ''SignUp'' \<or> rq = Navigate ''Login''"

subsection \<open>Lemmas\<close>

lemma main_tabs_hd [simp]: "hd (main_tabs a) = Home"
  by (simp add: main_tabs_def)

lemma set_main_tabs: "set (main_tabs a) = insert Home (if a then {DoctorManagement} else {})"
  by (simp add: main_tabs_def)

lemma Home_in_main_tabs [simp]: "Home \<in> set (main_tabs a)"
  by (simp add: main_tabs_def)

lemma tab_of_name_in: "tab_of_name tabs n = Some t \<Longrightarrow> t \<in> set tabs"
  by (auto simp: tab_of_name_def dest: find_Some_iff [THEN iffD1] simp: in_set_conv_nth)

lemma stack_of_name_cases:
  "stack_of_name n = (if n = ''MainTabs'' then Some MainTabs
                      else if n = ''SignUp'' then Some SignUpRoute else None)"
  by (simp add: stack_of_name_def stack_screens_def)

lemma nav_wf_tabs_change: "nav_wf a s \<Longrightarrow> nav_wf a' (tabs_change (main_tabs a') s)"
  by (auto simp: nav_wf_def tabs_change_def)

lemma stack_handle_wf:
  assumes "st \<noteq> []" and "hd st = MainTabs" and "distinct st" and "stack_handle rq st = Some st'"
  shows "st' \<noteq> [] \<and> hd st' = MainTabs \<and> distinct st'"
proof (cases rq)
  case GoBack
  with assms have "1 < length st" and st': "st' = butlast st" by (auto split: if_splits)
  then obtain x xs where "st = MainTabs # x # xs" using assms(1,2)
    by (cases st; cases "tl st") auto
  with st' assms(3) show ?thesis by (auto dest: in_set_butlastD simp: distinct_butlast)
next
  case (Navigate n)
  then obtain r where r: "stack_of_name n = Some r"
    and st': "st' = (if r \<in> set st then takeWhile (\<lambda>x. x \<noteq> r) st @ [r] else st @ [r])"
    using assms(4) by (auto split: option.splits)
  obtain ys where st: "st = MainTabs # ys" using assms(1,2) by (cases st) auto
  show ?thesis
  proof (cases "r \<in> set st")
    case True
    have "distinct (takeWhile (\<lambda>x. x \<noteq> r) st)"
      using assms(3) by (metis takeWhile_dropWhile_id distinct_append)
    moreover have "r \<notin> set (takeWhile (\<lambda>x. x \<noteq> r) st)"
      by (auto dest: set_takeWhileD)
    ultimately show ?thesis using True st st' by (cases "r = MainTabs") auto
  next
    case False
    with st st' assms(3) show ?thesis by auto
  qed
qed

lemma nav_dispatch_wf:
  assumes "nav_wf a s" and "nav_dispatch a org rq s = Some s'"
  shows "nav_wf a s'"
proof (cases org)
  case FromTab
  show ?thesis
  proof (cases "tab_handle (main_tabs a) rq (tab s)")
    case (Some t)
    have "t \<in> set (main_tabs a)"
      using Some by (cases rq) (auto split: if_splits dest: tab_of_name_in)
    with Some FromTab assms show ?thesis by (auto simp: nav_wf_def)
  next
    case None
    with FromTab assms obtain st where h: "stack_handle rq (stack s) = Some st"
      and s': "s' = s\<lparr>stack := st\<rparr>" by auto
    from assms(1) stack_handle_wf [OF _ _ _ h] s' show ?thesis by (simp add: nav_wf_def)
  qed
next
  case FromStack
  with assms obtain st where h: "stack_handle rq (stack s) = Some st"
    and s': "s' = s\<lparr>stack := st\<rparr>" by auto
  from assms(1) stack_handle_wf [OF _ _ _ h] s' show ?thesis by (simp add: nav_wf_def)
qed

lemma nav_apply_wf: "nav_wf a s \<Longrightarrow> nav_wf a (nav_apply a org rq s)"
  by (auto simp: nav_apply_def split: option.splits intro: nav_dispatch_wf)

lemma tab_of_name_screen_names [simp]:
  "tab_of_name (main_tabs a) ''SignUp'' = None" "tab_of_name (main_tabs a) ''Login'' = None"
  by (simp_all add: tab_of_name_def main_tabs_def)

lemma nav_apply_screen_tab:
  assumes "screen_request rq"
  shows "tab (nav_apply a org rq n) = tab n \<or> tab (nav_apply a org rq n) = Home"
  using assms
  by (cases org) (auto simp: screen_request_def nav_apply_def split: option.splits if_splits)

lemma nav_wf_stack_shape:
  assumes "nav_wf a n"
  shows "stack n = [MainTabs] \<or> stack n = [MainTabs, SignUpRoute]"
proof -
  obtain ys where st: "stack n = MainTabs # ys" and d: "distinct (MainTabs # ys)"
    using assms by (cases "stack n") (auto simp: nav_wf_def)
  have "x = SignUpRoute" if "x \<in> set ys" for x
  proof (cases x)
    case MainTabs
    with that d show ?thesis by simp
  qed simp
  then have sub: "set ys \<subseteq> {SignUpRoute}" by auto
  have "length ys = card (set ys)"
    using d by (simp add: distinct_card)
  also have "\<dots> \<le> 1"
    using card_mono [OF _ sub] by simp
  finally have "length ys \<le> 1" .
  with sub have "ys = [] \<or> ys = [SignUpRoute]"
    by (cases ys) auto
  with st show ?thesis by auto
qed

subsection \<open>Properties\<close>

text \<open>
  C10. The tab list always starts with \<open>Home\<close>, never repeats a tab, and
  contains the doctor-registration tab exactly when \<open>isAdmin\<close> is true.
\<close>

theorem main_tabs_gate:
  "hd (main_tabs a) = Home \<and> distinct (main_tabs a) \<and> (DoctorManagement \<in> set (main_tabs a) \<longleftrightarrow> a)"
  by (simp add: main_tabs_def)

text \<open>
  C11. When the tab list is recomputed for a new role, the focused tab is kept
  unless it was the doctor-registration tab and the role is no longer
  administrator; then \<open>Home\<close> is focused. The stack is untouched.
\<close>

theorem tabs_change_fallback:
  "tab (tabs_change (main_tabs a) s) = (if tab s = DoctorManagement \<and> \<not> a then Home else tab s) \<and>
   stack (tabs_change (main_tabs a) s) = stack s"
  by (cases "tab s") (auto simp: tabs_change_def main_tabs_def)

end
