(* ===== verification/Welcome.thy ===== *)
theory Welcome
  imports AuthContext Navigation
begin

text \<open>
  The home screen of \<open>src/screens/Welcome.tsx\<close> with its login overlay: the
  overlay's visibility, the login form, the handlers of the person icon, the
  close button and \<open>onRequestClose\<close>, the two text fields, \<open>handleLogin\<close> and
  the sign-up link. \<open>handleLogin\<close> is an \<open>async\<close> closure created at render
  time: the \<open>isAdmin\<close> it tests after \<open>await signIn(...)\<close> is the value of the
  render that created it, that is, of the session before the sign-in. The model
  passes it the context as it was at that render.
\<close>

record login_form =
  login_email :: js_string
  login_password :: js_string

record welcome_screen =
  show_login_modal :: bool
  lform :: login_form

definition welcome_init :: welcome_screen where
  "welcome_init = \<lparr>show_login_modal = False, lform = \<lparr>login_email = [], login_password = []\<rparr>\<rparr>"

definition welcome_open_login :: "welcome_screen \<Rightarrow> welcome_screen" where
  "welcome_open_login s = s\<lparr>show_login_modal := True\<rparr>"

definition welcome_close_login :: "welcome_screen \<Rightarrow> welcome_screen" where
  "welcome_close_login s = s\<lparr>show_login_modal := False\<rparr>"

definition welcome_change_email :: "js_string \<Rightarrow> welcome_screen \<Rightarrow> welcome_screen" where
  "welcome_change_email t s = s\<lparr>lform := (lform s)\<lparr>login_email := t\<rparr>\<rparr>"

definition welcome_change_password :: "js_string \<Rightarrow> welcome_screen \<Rightarrow> welcome_screen" where
  "welcome_change_password t s = s\<lparr>lform := (lform s)\<lparr>login_password := t\<rparr>\<rparr>"

text \<open>
  \<open>handleLogin\<close>: \<open>await signIn(email, password)\<close>; on success close the
  overlay and, if the closure's \<open>isAdmin\<close> holds, raise the welcome notice; on
  a rejection raise the failure notice. Returns the context after the call.
\<close>

definition welcome_handle_login ::
  "nat \<Rightarrow> auth_context \<Rightarrow> welcome_screen \<Rightarrow> welcome_screen outcome \<times> auth_context" where
  "welcome_handle_login now ctx s =
     (let admin_at_render = ctx_is_admin ctx;
          (r, ctx') = ctx_sign_in now (login_email (lform s)) (login_password (lform s)) ctx
      in case r of
           Inr _ \<Rightarrow>
             (\<lparr>next_state = s\<lparr>show_login_modal := False\<rparr>,
               alerts = (if admin_at_render then [simple_alert AdminWelcome] else []),
               requests = []\<rparr>, ctx')
         | Inl _ \<Rightarrow> (notify s LoginFailed, ctx'))"

text \<open>The sign-up link of the overlay: close it, then \<open>navigation.navigate('SignUp')\<close>.\<close>

definition welcome_go_sign_up :: "welcome_screen \<Rightarrow> welcome_screen outcome" where
  "welcome_go_sign_up s = request (s\<lparr>show_login_modal := False\<rparr>) (Navigate ''SignUp'')"

datatype welcome_event =
  WOpenLogin | WCloseLogin | WChangeEmail js_string | WChangePassword js_string
| WLogin nat | WGoSignUp

fun welcome_step ::
  "auth_context \<Rightarrow> welcome_screen \<Rightarrow> welcome_event \<Rightarrow> welcome_screen outcome \<times> auth_context" where
  "welcome_step ctx s WOpenLogin = (quiet (welcome_open_login s), ctx)"
| "welcome_step ctx s WCloseLogin = (quiet (welcome_close_login s), ctx)"
| "welcome_step ctx s (WChangeEmail t) = (quiet (welcome_change_email t s), ctx)"
| "welcome_step ctx s (WChangePassword t) = (quiet (welcome_change_password t s), ctx)"
| "welcome_step ctx s (WLogin now) = welcome_handle_login now ctx s"
| "welcome_step ctx s WGoSignUp = (welcome_go_sign_up s, ctx)"

declare welcome_open_login_def [handler_defs] welcome_close_login_def [handler_defs]
  welcome_change_email_def [handler_defs] welcome_change_password_def [handler_defs]
  welcome_go_sign_up_def [handler_defs]

subsection \<open>Lemmas\<close>

lemma welcome_handle_login_provided:
  "welcome_handle_login now (Provided a) s =
     (\<lparr>next_state = s\<lparr>show_login_modal := False\<rparr>,
       alerts = (if is_admin a then [simple_alert AdminWelcome] else []), requests = []\<rparr>,
      Provided (snd (sign_in now (login_email (lform s)) (login_password (lform s)) a)))"
  by (simp add: welcome_handle_login_def sign_in_eq)

lemma welcome_handle_login_default:
  "welcome_handle_login now DefaultContext s = (notify s LoginFailed, DefaultContext)"
  by (simp add: welcome_handle_login_def)

lemma welcome_step_requests:
  "\<forall>rq \<in> set (requests (fst (welcome_step (Provided a) w ev))). screen_request rq"
  by (cases ev) (simp_all add: handler_defs welcome_handle_login_provided screen_request_def)

lemma welcome_step_alerts:
  "\<forall>al \<in> set (alerts (fst (welcome_step (Provided a) w ev))).
     \<not> gate_notice (alert_notice al) \<and> alert_on_ok al = None"
  by (cases ev) (simp_all add: handler_defs welcome_handle_login_provided gate_notice_def)

lemma welcome_step_auth:
  "auth_inv a \<Longrightarrow> auth_inv (context_state a (snd (welcome_step (Provided a) w ev)))"
proof (cases ev)
  case (WLogin now)
  assume a: "auth_inv a"
  have "context_state a (snd (welcome_step (Provided a) w ev)) =
        auth_step a (SignInEv now (login_email (lform w)) (login_password (lform w)))"
    using WLogin by (simp add: welcome_handle_login_provided)
  with auth_step_inv [OF a, of "SignInEv now (login_email (lform w)) (login_password (lform w))"]
  show ?thesis by simp
qed simp_all

lemma welcome_step_notices:
  "al \<in> set (alerts (fst (welcome_step (Provided a) w ev))) \<Longrightarrow>
   alert_notice al = AdminWelcome \<or> alert_notice al = LoginFailed"
  by (cases ev) (auto simp: handler_defs welcome_handle_login_provided split: if_splits)

subsection \<open>Properties\<close>

text \<open>
  C18. The administrator notice after a login reflects the session before the
  login, not the one it creates: it is raised exactly when the user was already
  an administrator, while the new session is an administrator's exactly when the
  typed address is the administrator's. So a first administrator login gets no
  notice, and a patient login over an administrator session gets one.
\<close>

theorem welcome_admin_notice_stale:
  "alerts (fst (welcome_handle_login now (Provided a) s)) =
     (if is_admin a then [simple_alert AdminWelcome] else []) \<and>
   ctx_is_admin (snd (welcome_handle_login now (Provided a) s)) =
     (to_lower_case (login_email (lform s)) = admin_email)"
  by (simp add: welcome_handle_login_provided sign_in_eq is_admin_def)

text \<open>
  C19. Inside a provider a login always succeeds: the overlay closes and the
  typed address and password stay in the form. Outside a provider the call to
  the missing \<open>signIn\<close> throws, the failure notice is raised, and the overlay
  stays open with the typed values intact.
\<close>

theorem welcome_login_outcomes:
  "next_state (fst (welcome_handle_login now (Provided a) s)) = s\<lparr>show_login_modal := False\<rparr> \<and>
   requests (fst (welcome_handle_login now (Provided a) s)) = [] \<and>
   fst (welcome_handle_login now DefaultContext s) =
     \<lparr>next_state = s, alerts = [simple_alert LoginFailed], requests = []\<rparr>"
  by (simp add: welcome_handle_login_provided welcome_handle_login_default notify_def)

end
