(* ===== verification/Header.thy ===== *)
theory Header
  imports Prelude
begin

text \<open>
  The \<open>Header\<close> component of \<open>src/components/Header.tsx\<close>, as far as it behaves:
  the back button is rendered only when \<open>showBack\<close> holds (default \<open>false\<close>),
  and pressing it calls \<open>onBack\<close>, which may be absent. The title and the right
  component are presentation. A screen passes \<open>onBack\<close> as the navigation
  request its callback makes.
\<close>

record header_props =
  show_back :: bool
  on_back :: "nav_request option"

text \<open>\<open><Header title=... /> \<close> with the defaults of the destructuring.\<close>

definition header_default :: header_props where
  "header_default = \<lparr>show_back = False, on_back = None\<rparr>"

text \<open>The requests of one press on the back button, if it is on screen.\<close>

definition header_press_back :: "header_props \<Rightarrow> nav_request list" where
  "header_press_back p =
     (if show_back p then (case on_back p of None \<Rightarrow> [] | Some rq \<Rightarrow> [rq]) else [])"

text \<open>\<open><Header showBack onBack={() => navigation.goBack()} /> \<close>, as both forms use it.\<close>

definition back_header :: header_props where
  "back_header = \<lparr>show_back = True, on_back = Some GoBack\<rparr>"

lemma header_press_back_default [simp]: "header_press_back header_default = []"
  by (simp add: header_press_back_def header_default_def)

lemma header_press_back_back [simp]: "header_press_back back_header = [GoBack]"
  by (simp add: header_press_back_def back_header_def)

end
