(* ===== verification/SignUp.thy ===== *)
theory SignUp
  imports Navigation Header
begin

text \<open>
  The patient sign-up screen of \<open>src/screens/SignUp.tsx\<close>: its form state, the
  two password-visibility toggles, the text-field handlers, \<open>handleSignUp\<close>,
  the header's back button and the "already have an account" link. The form's
  fields are prefixed \<open>pf_\<close> (patient form).
\<close>

record signup_form =
  pf_name :: js_string
  pf_email :: js_string
  pf_phone :: js_string
  pf_password :: js_string
  pf_confirm_password :: js_string

record signup_screen =
  form :: signup_form
  show_password :: bool
  show_confirm_password :: bool

definition empty_signup_form :: signup_form where
  "empty_signup_form =
     \<lparr>pf_name = [], pf_email = [], pf_phone = [], pf_password = [], pf_confirm_password = []\<rparr>"

definition signup_init :: signup_screen where
  "signup_init = \<lparr>form = empty_signup_form, show_password = False, show_confirm_password = False\<rparr>"

datatype signup_field = SuName | SuEmail | SuPhone | SuPassword | SuConfirmPassword

text \<open>\<open>onChangeText={(text) => setForm({ ...form, f: text })}\<close> for each field.\<close>

fun set_signup_field :: "signup_field \<Rightarrow> js_string \<Rightarrow> signup_form \<Rightarrow> signup_form" where
  "set_signup_field SuName t f = f\<lparr>pf_name := t\<rparr>"
| "set_signup_field SuEmail t f = f\<lparr>pf_email := t\<rparr>"
| "set_signup_field SuPhone t f = f\<lparr>pf_phone := t\<rparr>"
| "set_signup_field SuPassword t f = f\<lparr>pf_password := t\<rparr>"
| "set_signup_field SuConfirmPassword t f = f\<lparr>pf_confirm_password := t\<rparr>"

definition signup_change_text :: "signup_field \<Rightarrow> js_string \<Rightarrow> signup_screen \<Rightarrow> signup_screen" where
  "signup_change_text fld t s = s\<lparr>form := set_signup_field fld t (form s)\<rparr>"

definition signup_toggle_password :: "signup_screen \<Rightarrow> signup_screen" where
  "signup_toggle_password s = s\<lparr>show_password := \<not> show_password s\<rparr>"

definition signup_toggle_confirm :: "signup_screen \<Rightarrow> signup_screen" where
  "signup_toggle_confirm s = s\<lparr>show_confirm_password := \<not> show_confirm_password s\<rparr>"

text \<open>
  \<open>handleSignUp\<close>: its only statement is \<open>console.log('Form:', form)\<close>, which
  changes no state, raises no notice and navigates nowhere.
\<close>

definition signup_handle_sign_up :: "signup_screen \<Rightarrow> signup_screen outcome" where
  "signup_handle_sign_up s = quiet s"

text \<open>\<open>Header onBack={() => navigation.goBack()}\<close>.\<close>

definition signup_back :: "signup_screen \<Rightarrow> signup_screen outcome" where
  "signup_back s = \<lparr>next_state = s, alerts = [], requests = header_press_back back_header\<rparr>"

text \<open>\<open>onPress={() => navigation.navigate('Login')}\<close>.\<close>

definition signup_login_link :: "signup_screen \<Rightarrow> signup_screen outcome" where
  "signup_login_link s = request s (Navigate ''Login'')"

datatype signup_event =
  SuChangeText signup_field js_string | SuTogglePassword | SuToggleConfirm
| SuSubmit | SuBack | SuLoginLink

fun signup_step :: "signup_screen \<Rightarrow> signup_event \<Rightarrow> signup_screen outcome" where
  "signup_step s (SuChangeText fld t) = quiet (signup_change_text fld t s)"
| "signup_step s SuTogglePassword = quiet (signup_toggle_password s)"
| "signup_step s SuToggleConfirm = quiet (signup_toggle_confirm s)"
| "signup_step s SuSubmit = signup_handle_sign_up s"
| "signup_step s SuBack = signup_back s"
| "signup_step s SuLoginLink = signup_login_link s"

declare signup_handle_sign_up_def [handler_defs] signup_back_def [handler_defs]
  signup_login_link_def [handler_defs] signup_change_text_def [handler_defs]
  signup_toggle_password_def [handler_defs] signup_toggle_confirm_def [handler_defs]

subsection \<open>Lemmas\<close>

lemma signup_step_alerts: "alerts (signup_step su ev) = []"
  by (cases ev) (simp_all add: handler_defs)

lemma signup_step_requests: "\<forall>rq \<in> set (requests (signup_step su ev)). screen_request rq"
  by (cases ev) (simp_all add: handler_defs screen_request_def)

subsection \<open>Properties\<close>

text \<open>
  C13. The "already have an account" link asks for a route named \<open>Login\<close>,
  which neither navigator declares: no navigator handles the request and the
  navigation state is unchanged, whatever it was.
\<close>

theorem signup_login_link_unhandled:
  "requests (signup_step s SuLoginLink) = [rq] \<Longrightarrow>
   nav_dispatch a FromStack rq n = None \<and> nav_apply a FromStack rq n = n"
  by (auto simp: handler_defs nav_apply_def stack_of_name_cases)

theorem signup_login_link_unhandled_witness:
  "nav_dispatch True FromStack (Navigate ''Login'') nav_init = None \<and>
   nav_apply True FromStack (Navigate ''Login'') nav_init = nav_init"
  using signup_login_link_unhandled [of signup_init "Navigate ''Login''" True nav_init]
  by (simp add: handler_defs)

end
