(* ===== verification/DoctorSignUp.thy ===== *)
theory DoctorSignUp
  imports Navigation Header
begin

text \<open>
  The administrator's doctor-registration screen of
  \<open>src/screens/DoctorSignUp.tsx\<close>: the specialty list, the form state (fields
  prefixed \<open>df_\<close>), the three display toggles, the effect that denies access
  to a non-administrator, \<open>handleSignUp\<close> with its three guards, the render
  gate, the field handlers and the header's back button. \<open>isAdmin\<close> is the
  argument \<open>admin\<close>, read from the session context at render time.
\<close>

definition specialties :: "js_string list" where
  "specialties =
     [''Cardiologia'', ''Dermatologia'', ''Neurologia'', ''Ortopedia'', ''Pediatria'',
      ''Ginecologia'', ''Urologia'', ''Oftalmologia'', ''Otorrinolaringologia'', ''Psiquiatria'']"

record doctor_form =
  df_name :: js_string
  df_crm :: js_string
  df_specialty :: js_string
  df_email :: js_string
  df_phone :: js_string
  df_price :: js_string
  df_password :: js_string
  df_confirm_password :: js_string

record doctor_screen =
  dform :: doctor_form
  dshow_password :: bool
  dshow_confirm_password :: bool
  show_specialties :: bool

definition empty_doctor_form :: doctor_form where
  "empty_doctor_form =
     \<lparr>df_name = [], df_crm = [], df_specialty = [], df_email = [], df_phone = [],
      df_price = [], df_password = [], df_confirm_password = []\<rparr>"

definition doctor_init :: doctor_screen where
  "doctor_init =
     \<lparr>dform = empty_doctor_form, dshow_password = False, dshow_confirm_password = False,
      show_specialties = False\<rparr>"

subsection \<open>The access gate\<close>

text \<open>
  \<open>useEffect(() => { if (!isAdmin) Alert.alert('Acesso Negado', ..., [{ text:
  'OK', onPress: () => navigation.goBack() }]) }, [isAdmin, navigation])\<close>:
  the notices the effect raises when it runs.
\<close>

definition doctor_effect :: "bool \<Rightarrow> alert list" where
  "doctor_effect admin =
     (if \<not> admin then [\<lparr>alert_notice = AccessDenied, alert_on_ok = Some GoBack\<rparr>] else [])"

text \<open>\<open>if (!isAdmin) return null;\<close>: the form is rendered only for an administrator.\<close>

definition doctor_render :: "bool \<Rightarrow> doctor_screen \<Rightarrow> doctor_form option" where
  "doctor_render admin s = (if \<not> admin then None else Some (dform s))"

subsection \<open>handleSignUp\<close>

text \<open>\<open>!form.name || !form.crm || ... || !form.password\<close>: \<open>confirmPassword\<close> is not in the list.\<close>

definition doctor_missing_field :: "doctor_form \<Rightarrow> bool" where
  "doctor_missing_field f \<longleftrightarrow>
     js_falsy (df_name f) \<or> js_falsy (df_crm f) \<or> js_falsy (df_specialty f) \<or>
     js_falsy (df_email f) \<or> js_falsy (df_phone f) \<or> js_falsy (df_price f) \<or>
     js_falsy (df_password f)"

definition doctor_handle_sign_up :: "bool \<Rightarrow> doctor_screen \<Rightarrow> doctor_screen outcome" where
  "doctor_handle_sign_up admin s =
     (if \<not> admin then notify s NoPermissionToRegister
      else if doctor_missing_field (dform s) then notify s FillAllFields
      else if df_password (dform s) \<noteq> df_confirm_password (dform s) then notify s PasswordsDoNotMatch
      else notify (s\<lparr>dform := empty_doctor_form\<rparr>) DoctorRegistered)"

subsection \<open>Field handlers and toggles\<close>

datatype doctor_field = DfName | DfCrm | DfEmail | DfPhone | DfPrice | DfPassword | DfConfirmPassword

text \<open>The text inputs; the specialty has none, it is chosen from the list.\<close>

fun set_doctor_field :: "doctor_field \<Rightarrow> js_string \<Rightarrow> doctor_form \<Rightarrow> doctor_form" where
  "set_doctor_field DfName t f = f\<lparr>df_name := t\<rparr>"
| "set_doctor_field DfCrm t f = f\<lparr>df_crm := t\<rparr>"
| "set_doctor_field DfEmail t f = f\<lparr>df_email := t\<rparr>"
| "set_doctor_field DfPhone t f = f\<lparr>df_phone := t\<rparr>"
| "set_doctor_field DfPrice t f = f\<lparr>df_price := t\<rparr>"
| "set_doctor_field DfPassword t f = f\<lparr>df_password := t\<rparr>"
| "set_doctor_field DfConfirmPassword t f = f\<lparr>df_confirm_password := t\<rparr>"

definition doctor_change_text :: "doctor_field \<Rightarrow> js_string \<Rightarrow> doctor_screen \<Rightarrow> doctor_screen" where
  "doctor_change_text fld t s = s\<lparr>dform := set_doctor_field fld t (dform s)\<rparr>"

definition doctor_toggle_specialties :: "doctor_screen \<Rightarrow> doctor_screen" where
  "doctor_toggle_specialties s = s\<lparr>show_specialties := \<not> show_specialties s\<rparr>"

text \<open>
  Pressing the \<open>i\<close>-th item of the specialty list, which is on screen only while
  \<open>showSpecialties\<close> holds: \<open>setForm({ ...form, specialty });
  setShowSpecialties(false)\<close>.
\<close>

definition doctor_select_specialty :: "nat \<Rightarrow> doctor_screen \<Rightarrow> doctor_screen" where
  "doctor_select_specialty i s =
     (if show_specialties s \<and> i < length specialties
      then s\<lparr>dform := (dform s)\<lparr>df_specialty := specialties ! i\<rparr>, show_specialties := False\<rparr>
      else s)"

definition doctor_toggle_password :: "doctor_screen \<Rightarrow> doctor_screen" where
  "doctor_toggle_password s = s\<lparr>dshow_password := \<not> dshow_password s\<rparr>"

definition doctor_toggle_confirm :: "doctor_screen \<Rightarrow> doctor_screen" where
  "doctor_toggle_confirm s = s\<lparr>dshow_confirm_password := \<not> dshow_confirm_password s\<rparr>"

definition doctor_back :: "doctor_screen \<Rightarrow> doctor_screen outcome" where
  "doctor_back s = \<lparr>next_state = s, alerts = [], requests = header_press_back back_header\<rparr>"

datatype doctor_event =
  DfChangeText doctor_field js_string | DfToggleSpecialties | DfSelectSpecialty nat
| DfTogglePassword | DfToggleConfirm | DfSubmit | DfBack

fun doctor_step :: "bool \<Rightarrow> doctor_screen \<Rightarrow> doctor_event \<Rightarrow> doctor_screen outcome" where
  "doctor_step admin s (DfChangeText fld t) = quiet (doctor_change_text fld t s)"
| "doctor_step admin s DfToggleSpecialties = quiet (doctor_toggle_specialties s)"
| "doctor_step admin s (DfSelectSpecialty i) = quiet (doctor_select_specialty i s)"
| "doctor_step admin s DfTogglePassword = quiet (doctor_toggle_password s)"
| "doctor_step admin s DfToggleConfirm = quiet (doctor_toggle_confirm s)"
| "doctor_step admin s DfSubmit = doctor_handle_sign_up admin s"
| "doctor_step admin s DfBack = doctor_back s"

text \<open>A run of screen events, each handled with the role current at the time.\<close>

fun doctor_run :: "bool \<Rightarrow> doctor_screen \<Rightarrow> doctor_event list \<Rightarrow> doctor_screen" where
  "doctor_run admin s [] = s"
| "doctor_run admin s (ev # evs) = doctor_run admin (next_state (doctor_step admin s ev)) evs"

text \<open>The specialty field holds nothing or one of the listed specialties.\<close>

definition specialty_ok :: "doctor_screen \<Rightarrow> bool" where
  "specialty_ok s \<longleftrightarrow> df_specialty (dform s) = [] \<or> df_specialty (dform s) \<in> set specialties"

declare doctor_handle_sign_up_def [handler_defs] doctor_change_text_def [handler_defs]
  doctor_toggle_specialties_def [handler_defs] doctor_select_specialty_def [handler_defs]
  doctor_toggle_password_def [handler_defs] doctor_toggle_confirm_def [handler_defs]
  doctor_back_def [handler_defs]

subsection \<open>Lemmas\<close>

lemma set_doctor_field_specialty [simp]:
  "df_specialty (set_doctor_field fld t f) = df_specialty f"
  by (cases fld) simp_all

lemma doctor_step_specialty_ok:
  "specialty_ok s \<Longrightarrow> specialty_ok (next_state (doctor_step a s ev))"
  by (cases ev) (auto simp: specialty_ok_def handler_defs empty_doctor_form_def)

lemma doctor_run_specialty_ok:
  "specialty_ok s \<Longrightarrow> specialty_ok (doctor_run a s evs)"
  by (induction evs arbitrary: s) (simp_all add: doctor_step_specialty_ok)

lemma doctor_complete_form_ok:
  "p \<noteq> [] \<Longrightarrow> \<not> doctor_missing_field
     \<lparr>df_name = ''Ana'', df_crm = ''123'', df_specialty = ''Pediatria'', df_email = ''a@b'',
      df_phone = ''55'', df_price = ''200'', df_password = p, df_confirm_password = q\<rparr>"
  by (simp add: doctor_missing_field_def js_falsy_def)

lemma doctor_step_requests: "\<forall>rq \<in> set (requests (doctor_step a d ev)). screen_request rq"
  by (cases ev) (simp_all add: handler_defs screen_request_def)

lemma doctor_step_alerts_admin:
  "\<forall>al \<in> set (alerts (doctor_step True d ev)).
     \<not> gate_notice (alert_notice al) \<and> alert_on_ok al = None"
  by (cases ev) (simp_all add: handler_defs gate_notice_def)

subsection \<open>Properties\<close>

text \<open>
  C14. A submission succeeds (the success notice) exactly when the user is an
  administrator, none of the seven checked fields is empty and the two
  passwords are equal; a successful submission resets every field to empty.
\<close>

theorem doctor_submit_success:
  "(alerts (doctor_handle_sign_up admin s) = [simple_alert DoctorRegistered] \<longleftrightarrow>
     admin \<and> \<not> doctor_missing_field (dform s) \<and> df_password (dform s) = df_confirm_password (dform s)) \<and>
   (alerts (doctor_handle_sign_up admin s) = [simple_alert DoctorRegistered] \<longrightarrow>
     next_state (doctor_handle_sign_up admin s) = s\<lparr>dform := empty_doctor_form\<rparr>)"
  by (simp add: handler_defs)

theorem doctor_submit_success_witness:
  "alerts (doctor_handle_sign_up True (doctor_init\<lparr>dform :=
     \<lparr>df_name = ''Ana'', df_crm = ''123'', df_specialty = ''Pediatria'', df_email = ''a@b'',
      df_phone = ''55'', df_price = ''200'', df_password = ''pw'', df_confirm_password = ''pw''\<rparr>\<rparr>))
     = [simple_alert DoctorRegistered] \<and>
   next_state (doctor_handle_sign_up True (doctor_init\<lparr>dform :=
     \<lparr>df_name = ''Ana'', df_crm = ''123'', df_specialty = ''Pediatria'', df_email = ''a@b'',
      df_phone = ''55'', df_price = ''200'', df_password = ''pw'', df_confirm_password = ''pw''\<rparr>\<rparr>))
     = doctor_init"
  using doctor_submit_success [of True "doctor_init\<lparr>dform :=
     \<lparr>df_name = ''Ana'', df_crm = ''123'', df_specialty = ''Pediatria'', df_email = ''a@b'',
      df_phone = ''55'', df_price = ''200'', df_password = ''pw'', df_confirm_password = ''pw''\<rparr>\<rparr>"]
    doctor_complete_form_ok [of "''pw''" "''pw''"]
  by (simp add: doctor_init_def)

text \<open>
  C15. A refused submission leaves every field as it was and raises one notice,
  chosen by the first failing guard in the source's order: permission, then a
  missing field, then the password mismatch (so \<open>password = "abc"\<close>,
  \<open>confirmPassword = "xyz"\<close> on an otherwise complete form gives the
  mismatch notice).
\<close>

theorem doctor_submit_refused:
  assumes "\<not> (admin \<and> \<not> doctor_missing_field (dform s) \<and>
              df_password (dform s) = df_confirm_password (dform s))"
  shows "doctor_handle_sign_up admin s =
    notify s (if \<not> admin then NoPermissionToRegister
              else if doctor_missing_field (dform s) then FillAllFields
              else PasswordsDoNotMatch)"
  using assms by (auto simp: doctor_handle_sign_up_def)

theorem doctor_submit_refused_witness:
  "doctor_handle_sign_up True (doctor_init\<lparr>dform :=
     \<lparr>df_name = ''Ana'', df_crm = ''123'', df_specialty = ''Pediatria'', df_email = ''a@b'',
      df_phone = ''55'', df_price = ''200'', df_password = ''abc'', df_confirm_password = ''xyz''\<rparr>\<rparr>) =
   notify (doctor_init\<lparr>dform :=
     \<lparr>df_name = ''Ana'', df_crm = ''123'', df_specialty = ''Pediatria'', df_email = ''a@b'',
      df_phone = ''55'', df_price = ''200'', df_password = ''abc'', df_confirm_password = ''xyz''\<rparr>\<rparr>)
     PasswordsDoNotMatch"
  using doctor_submit_refused [of True "doctor_init\<lparr>dform :=
     \<lparr>df_name = ''Ana'', df_crm = ''123'', df_specialty = ''Pediatria'', df_email = ''a@b'',
      df_phone = ''55'', df_price = ''200'', df_password = ''abc'', df_confirm_password = ''xyz''\<rparr>\<rparr>"]
    doctor_complete_form_ok [of "''abc''" "''xyz''"]
  by simp

text \<open>
  C16. Entering the doctor-registration tab without administrator rights renders
  no form and raises the access-denied notice, whose OK button sends the tab
  navigator back to \<open>Home\<close>.
\<close>

theorem doctor_gate_forces_back:
  assumes "\<not> admin" and "tab n = DoctorManagement"
  shows "doctor_render admin s = None \<and> map alert_notice (doctor_effect admin) = [AccessDenied] \<and>
    (case alert_on_ok (hd (doctor_effect admin)) of
       Some rq \<Rightarrow> tab (nav_apply admin' FromTab rq n) = Home | None \<Rightarrow> False)"
  using assms by (simp add: doctor_render_def doctor_effect_def nav_apply_def)

theorem doctor_gate_forces_back_witness:
  "doctor_render False doctor_init = None \<and> map alert_notice (doctor_effect False) = [AccessDenied] \<and>
    (case alert_on_ok (hd (doctor_effect False)) of
       Some rq \<Rightarrow> tab (nav_apply True FromTab rq (nav_init\<lparr>tab := DoctorManagement\<rparr>)) = Home
     | None \<Rightarrow> False)"
  by (rule doctor_gate_forces_back) simp_all

text \<open>
  C17. Whatever the screen events and the role, the specialty field only ever
  holds the empty string or one of the ten listed specialties: it has no text
  input, and the list offers only those.
\<close>

theorem doctor_specialty_listed:
  "df_specialty (dform (doctor_run admin doctor_init evs)) \<in> insert [] (set specialties)"
  using doctor_run_specialty_ok [of doctor_init admin evs]
  by (auto simp: specialty_ok_def doctor_init_def empty_doctor_form_def)

end
