(* ===== verification/Dimensions.thy ===== *)
theory Dimensions
  imports Prelude
begin

text \<open>
  The responsive-scaling utility of \<open>src/utils/dimensions.ts\<close>. The module reads
  the window size once (\<open>Dimensions.get('window')\<close>) and the platform facts
  (\<open>Platform.OS\<close>, \<open>isPad\<close>, \<open>isTV\<close>, \<open>StatusBar.currentHeight\<close>); here they
  are explicit arguments. JavaScript numbers are modelled as reals: the
  floating-point rounding of the divisions is not modelled.
\<close>

subsection \<open>Environment\<close>

record window =
  width :: real
  height :: real

datatype platform_os = IOS | Android | Web | Windows | MacOS

record platform =
  os :: platform_os
  is_pad :: bool
  is_tv :: bool
  status_bar_current_height :: "real option"

definition guideline_base_width :: real where
  "guideline_base_width = 375"

definition guideline_base_height :: real where
  "guideline_base_height = 812"

subsection \<open>Scaling\<close>

definition scale_width :: "window \<Rightarrow> real \<Rightarrow> real" where
  "scale_width w sz = (width w / guideline_base_width) * sz"

definition scale_height :: "window \<Rightarrow> real \<Rightarrow> real" where
  "scale_height w sz = (height w / guideline_base_height) * sz"

definition moderate_scale :: "window \<Rightarrow> real \<Rightarrow> real \<Rightarrow> real" where
  "moderate_scale w sz factor = sz + (scale_width w sz - sz) * factor"

text \<open>\<open>moderateScale(size)\<close> with the default \<open>factor = 0.5\<close>.\<close>

definition moderate_scale_default :: "window \<Rightarrow> real \<Rightarrow> real" where
  "moderate_scale_default w sz = moderate_scale w sz (1/2)"

subsection \<open>Platform metrics\<close>

text \<open>\<open>x || 0\<close> on \<open>number | undefined\<close>: \<open>undefined\<close> and \<open>0\<close> give \<open>0\<close>.\<close>

definition or_zero :: "real option \<Rightarrow> real" where
  "or_zero h = (case h of None \<Rightarrow> 0 | Some x \<Rightarrow> if x = 0 then 0 else x)"

definition get_status_bar_height :: "platform \<Rightarrow> real" where
  "get_status_bar_height p =
     (if os p = IOS then 20 else or_zero (status_bar_current_height p))"

definition is_iphone_x :: "platform \<Rightarrow> window \<Rightarrow> bool" where
  "is_iphone_x p w \<longleftrightarrow>
     os p = IOS \<and> \<not> is_pad p \<and> \<not> is_tv p \<and>
     (height w = 780 \<or> height w = 812 \<or> height w = 844 \<or> height w = 896 \<or> height w = 926)"

definition get_bottom_space :: "platform \<Rightarrow> window \<Rightarrow> real" where
  "get_bottom_space p w = (if is_iphone_x p w then 34 else 0)"

record metrics =
  screen_width :: real
  screen_height :: real
  status_bar_height :: real
  bottom_space :: real

definition metrics_of :: "platform \<Rightarrow> window \<Rightarrow> metrics" where
  "metrics_of p w =
     \<lparr>screen_width = width w, screen_height = height w,
      status_bar_height = get_status_bar_height p, bottom_space = get_bottom_space p w\<rparr>"

lemmas scale_defs = scale_width_def scale_height_def moderate_scale_def
  moderate_scale_default_def guideline_base_width_def guideline_base_height_def

subsection \<open>Lemmas\<close>

text \<open>\<open>moderateScale\<close> multiplies its argument by one factor fixed by the window.\<close>

lemma moderate_scale_linear:
  "moderate_scale w sz f = sz * (1 + (width w / 375 - 1) * f)"
  by (simp add: scale_defs algebra_simps)

lemma moderate_scale_coeff_nonneg:
  assumes "0 \<le> width w" and "0 \<le> f" and "f \<le> 1"
  shows "0 \<le> 1 + (width w / 375 - 1) * f"
proof -
  have "-1 \<le> width w / 375 - 1" using assms(1) by simp
  then have "- f \<le> (width w / 375 - 1) * f"
    using assms(2) by (metis mult_minus_left mult_right_mono mult_1)
  with assms(3) show ?thesis by linarith
qed

subsection \<open>Properties\<close>

text \<open>
  C7. On any window and for a factor between 0 and 1, \<open>moderateScale\<close> keeps
  the order of sizes: a larger design size never renders smaller.
\<close>

theorem moderate_scale_mono:
  assumes "0 \<le> width w" and "0 \<le> f" and "f \<le> 1" and "a \<le> b"
  shows "moderate_scale w a f \<le> moderate_scale w b f"
  using moderate_scale_coeff_nonneg [OF assms(1-3)] assms(4)
  by (simp add: moderate_scale_linear mult_right_mono)

theorem moderate_scale_mono_witness:
  "moderate_scale \<lparr>width = 320, height = 568\<rparr> 12 (1/2) \<le> moderate_scale \<lparr>width = 320, height = 568\<rparr> 16 (1/2)"
  by (rule moderate_scale_mono) simp_all

end
