(* ===== verification/App.thy ===== *)
theory App
  imports Welcome SignUp DoctorSignUp Dimensions
begin

text \<open>
  The composition root of \<open>App.tsx\<close>: one \<open>AuthProvider\<close> around the safe-area
  view and the navigators. The application state holds the provider's state, the
  navigator state, the state of each mounted screen and the notices on screen.
  \<open>Welcome\<close> (the \<open>Home\<close> tab) is mounted throughout; \<open>SignUp\<close> is mounted
  while its route is on the stack and loses its state when popped; the doctor
  screen is mounted when its tab is first focused and unmounted when the tab
  disappears. A notice blocks every other input until its OK button is pressed;
  the OK button's request is handled by the navigator of the screen that raised
  the notice. Every screen reads the provider's value, so the session context is
  \<open>Provided\<close> throughout.
\<close>

definition app_padding_top :: "platform \<Rightarrow> window \<Rightarrow> real" where
  "app_padding_top p w = (if os p = Android then status_bar_height (metrics_of p w) else 0)"

record app_state =
  auth :: auth_state
  nav :: nav_state
  welcome_state :: welcome_screen
  signup :: "signup_screen option"
  doctor :: "doctor_screen option"
  pending :: "(alert \<times> nav_origin) list"
  foreground :: bool

definition app_init :: app_state where
  "app_init = \<lparr>auth = auth_init, nav = nav_init, welcome_state = welcome_init, signup = None,
               doctor = None, pending = [], foreground = True\<rparr>"

datatype app_event =
  WelcomeEv welcome_event | SignUpEv signup_event | DoctorEv doctor_event
| TabPress tab_route | PressOk | HardwareBack

definition app_admin :: "app_state \<Rightarrow> bool" where
  "app_admin s = is_admin (auth s)"

definition top_route :: "app_state \<Rightarrow> stack_route" where
  "top_route s = last (stack (nav s))"

subsection \<open>Effects of a handler on the application\<close>

text \<open>The sign-up screen is mounted exactly while its route is on the stack.\<close>

definition sync_signup :: "nav_state \<Rightarrow> signup_screen option \<Rightarrow> signup_screen option" where
  "sync_signup n su =
     (if SignUpRoute \<in> set (stack n) then (case su of None \<Rightarrow> Some signup_init | Some x \<Rightarrow> Some x)
      else None)"

fun apply_requests :: "bool \<Rightarrow> nav_origin \<Rightarrow> nav_request list \<Rightarrow> nav_state \<Rightarrow> nav_state" where
  "apply_requests a org [] n = n"
| "apply_requests a org (rq # rqs) n = apply_requests a org rqs (nav_apply a org rq n)"

definition after_nav :: "app_state \<Rightarrow> nav_state \<Rightarrow> app_state" where
  "after_nav s n = s\<lparr>nav := n, signup := sync_signup n (signup s)\<rparr>"

definition raise_alerts :: "nav_origin \<Rightarrow> alert list \<Rightarrow> app_state \<Rightarrow> app_state" where
  "raise_alerts org als s = s\<lparr>pending := pending s @ map (\<lambda>al. (al, org)) als\<rparr>"

text \<open>
  A new provider state: the tab list is recomputed from \<open>isAdmin\<close>, and the doctor
  screen is unmounted when its tab goes away.
\<close>

definition role_change :: "auth_state \<Rightarrow> app_state \<Rightarrow> app_state" where
  "role_change a s =
     s\<lparr>auth := a, nav := tabs_change (main_tabs (is_admin a)) (nav s),
       doctor := (if is_admin a then doctor s else None)\<rparr>"

subsection \<open>Events\<close>

definition welcome_enabled :: "welcome_event \<Rightarrow> app_state \<Rightarrow> bool" where
  "welcome_enabled ev s \<longleftrightarrow>
     top_route s = MainTabs \<and> tab (nav s) = Home \<and>
     (if ev = WOpenLogin then \<not> show_login_modal (welcome_state s) else show_login_modal (welcome_state s))"

definition app_welcome :: "welcome_event \<Rightarrow> app_state \<Rightarrow> app_state" where
  "app_welcome ev s =
     (let (out, ctx') = welcome_step (Provided (auth s)) (welcome_state s) ev;
          s1 = raise_alerts FromTab (alerts out)
                 (role_change (context_state (auth s) ctx') (s\<lparr>welcome_state := next_state out\<rparr>))
      in after_nav s1 (apply_requests (app_admin s1) FromTab (requests out) (nav s1)))"

definition app_signup :: "signup_event \<Rightarrow> app_state \<Rightarrow> app_state" where
  "app_signup ev s =
     (case signup s of
        None \<Rightarrow> s
      | Some su \<Rightarrow>
          (let out = signup_step su ev;
               s1 = raise_alerts FromStack (alerts out) (s\<lparr>signup := Some (next_state out)\<rparr>)
           in after_nav s1 (apply_requests (app_admin s1) FromStack (requests out) (nav s1))))"

definition app_doctor :: "doctor_event \<Rightarrow> app_state \<Rightarrow> app_state" where
  "app_doctor ev s =
     (case doctor s of
        None \<Rightarrow> s
      | Some d \<Rightarrow>
          (let out = doctor_step (app_admin s) d ev;
               s1 = raise_alerts FromTab (alerts out) (s\<lparr>doctor := Some (next_state out)\<rparr>)
           in after_nav s1 (apply_requests (app_admin s1) FromTab (requests out) (nav s1))))"

text \<open>
  Pressing a tab focuses it; focusing the doctor tab for the first time mounts the
  screen, whose effect runs with the current \<open>isAdmin\<close>.
\<close>

definition app_tab_press :: "tab_route \<Rightarrow> app_state \<Rightarrow> app_state" where
  "app_tab_press t s =
     (if t \<in> set (main_tabs (app_admin s)) then
        (let s1 = s\<lparr>nav := (nav s)\<lparr>tab := t\<rparr>\<rparr>
         in if t = DoctorManagement \<and> doctor s = None
            then raise_alerts FromTab (doctor_effect (app_admin s)) (s1\<lparr>doctor := Some doctor_init\<rparr>)
            else s1)
      else s)"

definition app_press_ok :: "app_state \<Rightarrow> app_state" where
  "app_press_ok s =
     (case pending s of
        [] \<Rightarrow> s
      | (al, org) # rest \<Rightarrow>
          (let s1 = s\<lparr>pending := rest\<rparr>
           in case alert_on_ok al of
                None \<Rightarrow> s1
              | Some rq \<Rightarrow> after_nav s1 (nav_apply (app_admin s1) org rq (nav s1))))"

text \<open>
  The Android back button with no notice open: the overlay's
  \<open>onRequestClose\<close> when the login overlay is up, otherwise a \<open>goBack\<close> from
  the focused screen (the sign-up screen on top of the stack, else the focused
  tab). When no navigator handles it, React Native's default handler runs
  \<open>BackHandler.exitApp\<close>: the app leaves the foreground, its state kept (on
  Android 12 and later the task moves to the background).
\<close>

definition app_hardware_back :: "app_state \<Rightarrow> app_state" where
  "app_hardware_back s =
     (if top_route s = MainTabs \<and> tab (nav s) = Home \<and> show_login_modal (welcome_state s)
      then s\<lparr>welcome_state := welcome_close_login (welcome_state s)\<rparr>
      else (case nav_dispatch (app_admin s) (if top_route s = SignUpRoute then FromStack else FromTab)
                   GoBack (nav s) of
              None \<Rightarrow> s\<lparr>foreground := False\<rparr>
            | Some n \<Rightarrow> after_nav s n))"

text \<open>
  \<open>app_input\<close> dispatches an input event to the screen that receives it; a notice
  blocks every input but its OK button.
\<close>

fun app_input :: "app_state \<Rightarrow> app_event \<Rightarrow> app_state" where
  "app_input s PressOk = app_press_ok s"
| "app_input s (WelcomeEv ev) =
     (if pending s = [] \<and> welcome_enabled ev s then app_welcome ev s else s)"
| "app_input s (SignUpEv ev) =
     (if pending s = [] \<and> top_route s = SignUpRoute then app_signup ev s else s)"
| "app_input s (DoctorEv ev) =
     (if pending s = [] \<and> top_route s = MainTabs \<and> tab (nav s) = DoctorManagement
      then app_doctor ev s else s)"
| "app_input s (TabPress t) =
     (if pending s = [] \<and> top_route s = MainTabs \<and> \<not> show_login_modal (welcome_state s)
      then app_tab_press t s else s)"
| "app_input s HardwareBack = (if pending s = [] then app_hardware_back s else s)"

text \<open>
  An input event reaches the app only while it is on screen: if the previous
  event sent it to the background, the user has brought it back, which restores
  it with its state. (Before Android 12 the activity is destroyed instead, and a
  relaunch starts again from \<open>app_init\<close>, the initial state below.)
\<close>

definition app_step :: "app_state \<Rightarrow> app_event \<Rightarrow> app_state" where
  "app_step s ev = app_input (s\<lparr>foreground := True\<rparr>) ev"

fun app_run :: "app_state \<Rightarrow> app_event list \<Rightarrow> app_state" where
  "app_run s [] = s"
| "app_run s (ev # evs) = app_run (app_step s ev) evs"

inductive app_reachable :: "app_state \<Rightarrow> bool" where
  init: "app_reachable app_init"
| step: "app_reachable s \<Longrightarrow> app_reachable (app_step s ev)"

subsection \<open>The application invariant\<close>

definition app_inv :: "app_state \<Rightarrow> bool" where
  "app_inv s \<longleftrightarrow>
     auth_inv (auth s) \<and>
     nav_wf (app_admin s) (nav s) \<and>
     (doctor s \<noteq> None \<longrightarrow> app_admin s) \<and>
     (tab (nav s) = DoctorManagement \<longrightarrow> doctor s \<noteq> None) \<and>
     (signup s \<noteq> None \<longleftrightarrow> SignUpRoute \<in> set (stack (nav s))) \<and>
     (\<forall>p \<in> set (pending s). \<not> gate_notice (alert_notice (fst p)) \<and> alert_on_ok (fst p) = None) \<and>
     (\<forall>d. doctor s = Some d \<longrightarrow> specialty_ok d)"

text \<open>Runs used by the witnesses below.\<close>

definition admin_login_events :: "app_event list" where
  "admin_login_events =
     [WelcomeEv WOpenLogin, WelcomeEv (WChangeEmail ''dionathanma@hotmail.com''),
      WelcomeEv (WChangePassword ''secret''), WelcomeEv (WLogin 5)]"

definition empty_submit_events :: "app_event list" where
  "empty_submit_events = admin_login_events @ [TabPress DoctorManagement, DoctorEv DfSubmit]"

definition registration_events :: "app_event list" where
  "registration_events = admin_login_events @
     [TabPress DoctorManagement, DoctorEv (DfChangeText DfName ''Ana Lima''),
      DoctorEv (DfChangeText DfCrm ''12345''), DoctorEv DfToggleSpecialties, DoctorEv (DfSelectSpecialty 4),
      DoctorEv (DfChangeText DfEmail ''ana@clinic.com''), DoctorEv (DfChangeText DfPhone ''5551234''),
      DoctorEv (DfChangeText DfPrice ''200''), DoctorEv (DfChangeText DfPassword ''pw''),
      DoctorEv (DfChangeText DfConfirmPassword ''pw'')]"

definition to_signup_events :: "app_event list" where
  "to_signup_events = [WelcomeEv WOpenLogin, WelcomeEv WGoSignUp]"

definition typed_doctor_events :: "app_event list" where
  "typed_doctor_events = admin_login_events @ [TabPress DoctorManagement, DoctorEv (DfChangeText DfName ''Ana'')]"

subsection \<open>Lemmas\<close>

lemma app_inv_foreground [simp]: "app_inv (s\<lparr>foreground := b\<rparr>) = app_inv s"
  by (simp add: app_inv_def app_admin_def)

lemma app_admin_foreground [simp]: "app_admin (s\<lparr>foreground := b\<rparr>) = app_admin s"
  by (simp add: app_admin_def)

lemma top_route_foreground [simp]: "top_route (s\<lparr>foreground := b\<rparr>) = top_route s"
  by (simp add: top_route_def)

lemma apply_requests_wf: "nav_wf a n \<Longrightarrow> nav_wf a (apply_requests a org rqs n)"
  by (induction rqs arbitrary: n) (simp_all add: nav_apply_wf)

lemma apply_requests_tab:
  "\<forall>rq \<in> set rqs. screen_request rq \<Longrightarrow>
   tab (apply_requests a org rqs n) = tab n \<or> tab (apply_requests a org rqs n) = Home"
proof (induction rqs arbitrary: n)
  case Nil
  then show ?case by simp
next
  case (Cons rq rqs)
  then have "tab (apply_requests a org rqs (nav_apply a org rq n)) = tab (nav_apply a org rq n) \<or>
             tab (apply_requests a org rqs (nav_apply a org rq n)) = Home" by simp
  moreover have "tab (nav_apply a org rq n) = tab n \<or> tab (nav_apply a org rq n) = Home"
    using Cons.prems by (simp add: nav_apply_screen_tab)
  ultimately show ?case by auto
qed

lemma app_inv_after_nav:
  assumes "app_inv s" and "\<forall>rq \<in> set rqs. screen_request rq"
  shows "app_inv (after_nav s (apply_requests (app_admin s) org rqs (nav s)))"
proof -
  let ?n = "apply_requests (app_admin s) org rqs (nav s)"
  have wf: "nav_wf (app_admin s) ?n"
    using assms(1) by (simp add: app_inv_def apply_requests_wf)
  have t: "tab ?n = tab (nav s) \<or> tab ?n = Home"
    by (rule apply_requests_tab [OF assms(2)])
  show ?thesis
    using assms(1) wf t
    by (auto simp: app_inv_def after_nav_def app_admin_def sync_signup_def split: option.splits)
qed

lemma app_inv_raise_alerts:
  assumes "app_inv s" and "\<forall>al \<in> set als. \<not> gate_notice (alert_notice al) \<and> alert_on_ok al = None"
  shows "app_inv (raise_alerts org als s)"
  using assms by (auto simp: app_inv_def raise_alerts_def app_admin_def)

lemma app_inv_role_change:
  assumes "app_inv s" and "auth_inv a"
  shows "app_inv (role_change a s)"
proof -
  have wf: "nav_wf (is_admin a) (tabs_change (main_tabs (is_admin a)) (nav s))"
    using assms(1) by (auto simp: app_inv_def intro: nav_wf_tabs_change)
  have t: "tab (tabs_change (main_tabs (is_admin a)) (nav s)) = DoctorManagement \<Longrightarrow>
           tab (nav s) = DoctorManagement \<and> is_admin a"
    by (auto simp: tabs_change_def main_tabs_def split: if_splits)
  have st: "stack (tabs_change (main_tabs (is_admin a)) (nav s)) = stack (nav s)"
    by (simp add: tabs_change_def)
  show ?thesis
    using assms wf t st by (auto simp: app_inv_def role_change_def app_admin_def)
qed

lemma app_welcome_inv:
  assumes "app_inv s"
  shows "app_inv (app_welcome ev s)"
proof -
  obtain out ctx' where o: "welcome_step (Provided (auth s)) (welcome_state s) ev = (out, ctx')"
    by fastforce
  let ?s1 = "raise_alerts FromTab (alerts out)
               (role_change (context_state (auth s) ctx') (s\<lparr>welcome_state := next_state out\<rparr>))"
  have au: "auth_inv (context_state (auth s) ctx')"
    using welcome_step_auth [of "auth s" "welcome_state s" ev] assms o by (simp add: app_inv_def)
  have "app_inv (s\<lparr>welcome_state := next_state out\<rparr>)"
    using assms by (simp add: app_inv_def app_admin_def)
  then have "app_inv (role_change (context_state (auth s) ctx') (s\<lparr>welcome_state := next_state out\<rparr>))"
    using au by (rule app_inv_role_change)
  then have s1: "app_inv ?s1"
    using welcome_step_alerts [of "auth s" "welcome_state s" ev] o
    by (intro app_inv_raise_alerts) simp_all
  have "\<forall>rq \<in> set (requests out). screen_request rq"
    using welcome_step_requests [of "auth s" "welcome_state s" ev] o by simp
  from app_inv_after_nav [OF s1 this, of FromTab] o show ?thesis
    by (simp add: app_welcome_def Let_def)
qed

lemma app_signup_inv:
  assumes "app_inv s"
  shows "app_inv (app_signup ev s)"
proof (cases "signup s")
  case None
  with assms show ?thesis by (simp add: app_signup_def)
next
  case (Some su)
  let ?out = "signup_step su ev"
  let ?s1 = "raise_alerts FromStack (alerts ?out) (s\<lparr>signup := Some (next_state ?out)\<rparr>)"
  have "app_inv (s\<lparr>signup := Some (next_state ?out)\<rparr>)"
    using assms Some by (simp add: app_inv_def app_admin_def)
  then have s1: "app_inv ?s1"
    by (simp add: signup_step_alerts raise_alerts_def)
  from app_inv_after_nav [OF s1 signup_step_requests [of su ev], of FromStack] Some show ?thesis
    by (simp add: app_signup_def Let_def)
qed

lemma app_doctor_inv:
  assumes "app_inv s"
  shows "app_inv (app_doctor ev s)"
proof (cases "doctor s")
  case None
  with assms show ?thesis by (simp add: app_doctor_def)
next
  case (Some d)
  then have adm: "app_admin s" using assms by (simp add: app_inv_def)
  let ?out = "doctor_step True d ev"
  let ?s1 = "raise_alerts FromTab (alerts ?out) (s\<lparr>doctor := Some (next_state ?out)\<rparr>)"
  have "specialty_ok (next_state ?out)"
    using assms Some by (simp add: app_inv_def doctor_step_specialty_ok)
  then have "app_inv (s\<lparr>doctor := Some (next_state ?out)\<rparr>)"
    using assms adm by (simp add: app_inv_def app_admin_def)
  then have s1: "app_inv ?s1"
    by (rule app_inv_raise_alerts) (rule doctor_step_alerts_admin)
  from app_inv_after_nav [OF s1 doctor_step_requests [of True d ev], of FromTab] Some adm show ?thesis
    by (simp add: app_doctor_def Let_def)
qed

lemma app_tab_press_inv:
  assumes "app_inv s"
  shows "app_inv (app_tab_press t s)"
proof (cases "t \<in> set (main_tabs (app_admin s))")
  case False
  with assms show ?thesis by (simp add: app_tab_press_def)
next
  case True
  have dm: "t = DoctorManagement \<Longrightarrow> app_admin s"
    using True by (simp add: main_tabs_def split: if_splits)
  have init: "specialty_ok doctor_init"
    by (simp add: specialty_ok_def doctor_init_def empty_doctor_form_def)
  show ?thesis
  proof (cases "t = DoctorManagement \<and> doctor s = None")
    case mount: True
    then have "doctor_effect (app_admin s) = []"
      using dm by (simp add: doctor_effect_def)
    with assms True mount dm init show ?thesis
      by (auto simp: app_tab_press_def app_inv_def raise_alerts_def nav_wf_def app_admin_def)
  next
    case False
    with assms True dm show ?thesis
      by (auto simp: app_tab_press_def app_inv_def nav_wf_def app_admin_def)
  qed
qed

lemma app_press_ok_inv:
  assumes "app_inv s"
  shows "app_inv (app_press_ok s)"
proof (cases "pending s")
  case Nil
  with assms show ?thesis by (simp add: app_press_ok_def)
next
  case (Cons p rest)
  obtain al org where p: "p = (al, org)" by fastforce
  with Cons assms have "alert_on_ok al = None" by (auto simp: app_inv_def)
  with Cons p assms show ?thesis
    by (auto simp: app_press_ok_def app_inv_def app_admin_def)
qed

lemma app_hardware_back_inv:
  assumes "app_inv s"
  shows "app_inv (app_hardware_back s)"
proof -
  have g: "\<forall>rq \<in> set [GoBack]. screen_request rq" by (simp add: screen_request_def)
  have base: "app_inv (after_nav s (apply_requests (app_admin s) org [GoBack] (nav s)))" for org
    by (rule app_inv_after_nav [OF assms g])
  have nav: "app_inv (after_nav s n)"
    if "nav_dispatch (app_admin s) org GoBack (nav s) = Some n" for org n
    using base [of org] that by (simp add: nav_apply_def)
  have ov: "app_inv (s\<lparr>welcome_state := welcome_close_login (welcome_state s)\<rparr>)"
    using assms by (simp add: app_inv_def app_admin_def)
  show ?thesis
    using nav ov assms
    by (simp add: app_hardware_back_def del: nav_dispatch.simps split: option.splits)
qed

lemma app_input_inv: "app_inv s \<Longrightarrow> app_inv (app_input s ev)"
  by (cases ev)
     (simp_all add: app_welcome_inv app_signup_inv app_doctor_inv app_tab_press_inv app_press_ok_inv
        app_hardware_back_inv)

lemma app_step_inv: "app_inv s \<Longrightarrow> app_inv (app_step s ev)"
  by (simp add: app_step_def app_input_inv)

lemma app_inv_init: "app_inv app_init"
  by (simp add: app_inv_def app_init_def auth_inv_init nav_wf_def nav_init_def stack_screens_def
      app_admin_def)

lemma app_reachable_inv: "app_reachable s \<Longrightarrow> app_inv s"
  by (induction rule: app_reachable.induct) (simp_all add: app_inv_init app_step_inv)

lemma app_reachable_run: "app_reachable s \<Longrightarrow> app_reachable (app_run s evs)"
  by (induction evs arbitrary: s) (simp_all add: app_reachable.step)

lemma pending_after_nav [simp]: "pending (after_nav s n) = pending s"
  by (simp add: after_nav_def)

lemma pending_role_change [simp]: "pending (role_change a s) = pending s"
  by (simp add: role_change_def)

lemma pending_raise_alerts [simp]:
  "pending (raise_alerts org als s) = pending s @ map (\<lambda>al. (al, org)) als"
  by (simp add: raise_alerts_def)

lemma app_input_new_pending:
  assumes "p \<in> set (pending (app_input s ev))" and "p \<notin> set (pending s)"
  shows "(\<exists>w. ev = WelcomeEv w \<and> p \<in> set (map (\<lambda>al. (al, FromTab))
            (alerts (fst (welcome_step (Provided (auth s)) (welcome_state s) w))))) \<or>
         (\<exists>d e. ev = DoctorEv e \<and> doctor s = Some d \<and>
            p \<in> set (map (\<lambda>al. (al, FromTab)) (alerts (doctor_step (app_admin s) d e)))) \<or>
         (\<exists>t. ev = TabPress t \<and> p \<in> set (map (\<lambda>al. (al, FromTab)) (doctor_effect (app_admin s))))"
proof (cases ev)
  case PressOk
  with assms show ?thesis
    by (auto simp: app_press_ok_def Let_def split: list.splits option.splits dest: list.set_sel(2))
next
  case (WelcomeEv w)
  obtain out ctx' where o: "welcome_step (Provided (auth s)) (welcome_state s) w = (out, ctx')"
    by fastforce
  from assms WelcomeEv o show ?thesis
    by (auto simp: app_welcome_def Let_def split: if_splits)
next
  case (SignUpEv e)
  with assms show ?thesis
    by (auto simp: app_signup_def Let_def signup_step_alerts split: if_splits option.splits)
next
  case (DoctorEv e)
  with assms show ?thesis
    by (auto simp: app_doctor_def Let_def split: if_splits option.splits)
next
  case (TabPress t)
  with assms show ?thesis
    by (auto simp: app_tab_press_def Let_def split: if_splits)
next
  case HardwareBack
  with assms show ?thesis
    by (auto simp: app_hardware_back_def after_nav_def split: if_splits option.splits)
qed

lemma app_step_new_pending:
  assumes "p \<in> set (pending (app_step s ev))" and "p \<notin> set (pending s)"
  shows "(\<exists>w. ev = WelcomeEv w \<and> p \<in> set (map (\<lambda>al. (al, FromTab))
            (alerts (fst (welcome_step (Provided (auth s)) (welcome_state s) w))))) \<or>
         (\<exists>d e. ev = DoctorEv e \<and> doctor s = Some d \<and>
            p \<in> set (map (\<lambda>al. (al, FromTab)) (alerts (doctor_step (app_admin s) d e)))) \<or>
         (\<exists>t. ev = TabPress t \<and> p \<in> set (map (\<lambda>al. (al, FromTab)) (doctor_effect (app_admin s))))"
  using app_input_new_pending [of p "s\<lparr>foreground := True\<rparr>" ev] assms by (simp add: app_step_def)

lemma auth_app_welcome_cases:
  "auth (app_welcome ev s) = auth s \<or>
   (\<exists>now. auth (app_welcome ev s) =
      snd (sign_in now (login_email (lform (welcome_state s))) (login_password (lform (welcome_state s))) (auth s)))"
proof (cases ev)
  case (WLogin now)
  then show ?thesis
    by (auto simp: app_welcome_def welcome_handle_login_provided Let_def role_change_def after_nav_def
        raise_alerts_def)
qed (simp_all add: app_welcome_def handler_defs Let_def role_change_def after_nav_def raise_alerts_def)

lemma auth_app_input_cases:
  "auth (app_input s ev) = auth s \<or>
   (\<exists>now e p. auth (app_input s ev) = snd (sign_in now e p (auth s)))"
proof (cases ev)
  case (WelcomeEv w)
  then show ?thesis using auth_app_welcome_cases [of w s] by auto
next
  case PressOk
  then show ?thesis
    by (auto simp: app_press_ok_def Let_def after_nav_def split: list.splits option.splits prod.splits)
next
  case (SignUpEv e)
  then show ?thesis
    by (auto simp: app_signup_def Let_def after_nav_def raise_alerts_def split: option.splits)
next
  case (DoctorEv e)
  then show ?thesis
    by (auto simp: app_doctor_def Let_def after_nav_def raise_alerts_def split: option.splits)
next
  case (TabPress t)
  then show ?thesis
    by (auto simp: app_tab_press_def Let_def raise_alerts_def)
next
  case HardwareBack
  then show ?thesis
    by (auto simp: app_hardware_back_def after_nav_def split: option.splits)
qed

lemma auth_app_step_cases:
  "auth (app_step s ev) = auth s \<or>
   (\<exists>now e p. auth (app_step s ev) = snd (sign_in now e p (auth s)))"
  using auth_app_input_cases [of "s\<lparr>foreground := True\<rparr>" ev] by (simp add: app_step_def)

text \<open>Only an unhandled back press takes the application out of the foreground.\<close>

lemma app_input_leaves_foreground:
  assumes "foreground s" and "\<not> foreground (app_input s ev)"
  shows "ev = HardwareBack \<and> pending s = [] \<and>
         \<not> (top_route s = MainTabs \<and> tab (nav s) = Home \<and> show_login_modal (welcome_state s)) \<and>
         nav_dispatch (app_admin s) (if top_route s = SignUpRoute then FromStack else FromTab)
           GoBack (nav s) = None \<and>
         app_input s ev = s\<lparr>foreground := False\<rparr>"
proof (cases ev)
  case PressOk
  with assms show ?thesis
    by (auto simp: app_press_ok_def Let_def after_nav_def split: list.splits option.splits)
next
  case (WelcomeEv w)
  with assms show ?thesis
    by (auto simp: app_welcome_def Let_def after_nav_def raise_alerts_def role_change_def
        split: prod.splits if_splits)
next
  case (SignUpEv e)
  with assms show ?thesis
    by (auto simp: app_signup_def Let_def after_nav_def raise_alerts_def split: option.splits if_splits)
next
  case (DoctorEv e)
  with assms show ?thesis
    by (auto simp: app_doctor_def Let_def after_nav_def raise_alerts_def split: option.splits if_splits)
next
  case (TabPress t)
  with assms show ?thesis
    by (auto simp: app_tab_press_def Let_def raise_alerts_def split: if_splits)
next
  case HardwareBack
  with assms show ?thesis
    by (auto simp: app_hardware_back_def after_nav_def split: option.splits if_splits)
qed

subsection \<open>Properties\<close>

text \<open>
  C20. In every reachable state of the application, the doctor-registration tab is
  focused only when the session is an administrator's, and the doctor screen is then
  mounted.
\<close>

theorem app_doctor_tab_admin_only:
  assumes "app_reachable s" and "tab (nav s) = DoctorManagement"
  shows "app_admin s \<and> doctor s \<noteq> None"
  using app_reachable_inv [OF assms(1)] assms(2)
  by (auto simp: app_inv_def nav_wf_def main_tabs_def split: if_splits)

theorem app_doctor_tab_admin_only_witness:
  "app_reachable (app_run app_init (admin_login_events @ [TabPress DoctorManagement])) \<and>
   tab (nav (app_run app_init (admin_login_events @ [TabPress DoctorManagement]))) = DoctorManagement \<and>
   app_admin (app_run app_init (admin_login_events @ [TabPress DoctorManagement]))"
proof -
  let ?s = "app_run app_init (admin_login_events @ [TabPress DoctorManagement])"
  have r: "app_reachable ?s" by (rule app_reachable_run [OF app_reachable.init])
  have t: "tab (nav ?s) = DoctorManagement" by code_simp
  from app_doctor_tab_admin_only [OF r t] r t show ?thesis by simp
qed

text \<open>
  C21. In every reachable state of the application no access-denied notice and no
  no-permission notice is on screen: the doctor screen's own checks never fire in
  the composed application, because the tab gate already keeps non-administrators
  out.
\<close>

theorem app_gate_notices_never_raised:
  assumes "app_reachable s"
  shows "\<forall>p \<in> set (pending s). alert_notice (fst p) \<noteq> AccessDenied \<and>
                                alert_notice (fst p) \<noteq> NoPermissionToRegister"
  using app_reachable_inv [OF assms] by (auto simp: app_inv_def gate_notice_def)

theorem app_gate_notices_never_raised_witness:
  "app_reachable (app_run app_init empty_submit_events) \<and>
   map (alert_notice \<circ> fst) (pending (app_run app_init empty_submit_events)) = [FillAllFields] \<and>
   AccessDenied \<notin> set (map (alert_notice \<circ> fst) (pending (app_run app_init empty_submit_events))) \<and>
   NoPermissionToRegister \<notin> set (map (alert_notice \<circ> fst) (pending (app_run app_init empty_submit_events)))"
proof -
  let ?s = "app_run app_init empty_submit_events"
  have r: "app_reachable ?s" by (rule app_reachable_run [OF app_reachable.init])
  have p: "map (alert_notice \<circ> fst) (pending ?s) = [FillAllFields]" by code_simp
  from app_gate_notices_never_raised [OF r] have
    "AccessDenied \<notin> set (map (alert_notice \<circ> fst) (pending ?s)) \<and>
     NoPermissionToRegister \<notin> set (map (alert_notice \<circ> fst) (pending ?s))"
    by auto
  with r p show ?thesis by simp
qed

text \<open>
  C22. A doctor-registered notice appears only when the user presses the submit
  button of the doctor form while the session is an administrator's.
\<close>

theorem app_registration_by_admin_only:
  assumes "app_reachable s" and "p \<in> set (pending (app_step s ev))" and "p \<notin> set (pending s)"
    and "alert_notice (fst p) = DoctorRegistered"
  shows "app_admin s \<and> ev = DoctorEv DfSubmit"
proof -
  have inv: "app_inv s" by (rule app_reachable_inv [OF assms(1)])
  from app_step_new_pending [OF assms(2,3)] show ?thesis
  proof (elim disjE exE conjE)
    fix w assume "ev = WelcomeEv w"
      and "p \<in> set (map (\<lambda>al. (al, FromTab)) (alerts (fst (welcome_step (Provided (auth s)) (welcome_state s) w))))"
    then show ?thesis using assms(4) welcome_step_notices by fastforce
  next
    fix d e assume e: "ev = DoctorEv e" and d: "doctor s = Some d"
      and p: "p \<in> set (map (\<lambda>al. (al, FromTab)) (alerts (doctor_step (app_admin s) d e)))"
    have "app_admin s" using inv d by (simp add: app_inv_def)
    moreover have "e = DfSubmit"
      using p assms(4) by (cases e) (auto simp: handler_defs split: if_splits)
    ultimately show ?thesis using e by simp
  next
    fix t assume "p \<in> set (map (\<lambda>al. (al, FromTab)) (doctor_effect (app_admin s)))"
    then show ?thesis using assms(4) by (auto simp: doctor_effect_def split: if_splits)
  qed
qed

theorem app_registration_by_admin_only_witness:
  "app_reachable (app_run app_init registration_events) \<and>
   (simple_alert DoctorRegistered, FromTab) \<in> set (pending (app_step (app_run app_init registration_events) (DoctorEv DfSubmit))) \<and>
   (simple_alert DoctorRegistered, FromTab) \<notin> set (pending (app_run app_init registration_events)) \<and>
   app_admin (app_run app_init registration_events)"
proof -
  let ?s = "app_run app_init registration_events"
  have r: "app_reachable ?s" by (rule app_reachable_run [OF app_reachable.init])
  have i: "(simple_alert DoctorRegistered, FromTab) \<in> set (pending (app_step ?s (DoctorEv DfSubmit)))"
    by code_simp
  have n: "(simple_alert DoctorRegistered, FromTab) \<notin> set (pending ?s)" by code_simp
  from app_registration_by_admin_only [OF r i n] r i n show ?thesis by (simp add: simple_alert_def)
qed

text \<open>
  C23. In every reachable state the stack holds \<open>MainTabs\<close> at the bottom with
  no screen twice, a declared tab is focused, and the sign-up screen is mounted
  exactly while its route is on the stack (so leaving it discards what was typed).
\<close>

theorem app_nav_wellformed:
  assumes "app_reachable s"
  shows "stack (nav s) \<noteq> [] \<and> hd (stack (nav s)) = MainTabs \<and> distinct (stack (nav s)) \<and>
         tab (nav s) \<in> set (main_tabs (app_admin s)) \<and>
         (signup s \<noteq> None \<longleftrightarrow> SignUpRoute \<in> set (stack (nav s)))"
  using app_reachable_inv [OF assms] by (simp add: app_inv_def nav_wf_def)

theorem app_nav_wellformed_witness:
  "app_reachable (app_run app_init to_signup_events) \<and>
   stack (nav (app_run app_init to_signup_events)) = [MainTabs, SignUpRoute] \<and>
   signup (app_run app_init to_signup_events) = Some signup_init"
proof -
  let ?s = "app_run app_init to_signup_events"
  have r: "app_reachable ?s" by (rule app_reachable_run [OF app_reachable.init])
  have st: "stack (nav ?s) = [MainTabs, SignUpRoute]" by code_simp
  have su: "signup ?s = Some signup_init" by code_simp
  from app_nav_wellformed [OF r] r st su show ?thesis by simp
qed

text \<open>
  C24. From any reachable state in which an administrator sees the tab bar with no
  notice open, pressing the doctor tab focuses it and renders the registration form
  without any notice.
\<close>

theorem app_admin_reaches_doctor_form:
  assumes "app_reachable s" and "pending s = []" and "top_route s = MainTabs"
    and "\<not> show_login_modal (welcome_state s)" and "app_admin s"
  shows "tab (nav (app_step s (TabPress DoctorManagement))) = DoctorManagement \<and>
         pending (app_step s (TabPress DoctorManagement)) = [] \<and>
         (\<exists>d. doctor (app_step s (TabPress DoctorManagement)) = Some d \<and>
              doctor_render (app_admin (app_step s (TabPress DoctorManagement))) d = Some (dform d))"
  using assms
  by (auto simp: app_step_def app_tab_press_def Let_def main_tabs_def doctor_effect_def
      doctor_render_def raise_alerts_def app_admin_def)

theorem app_admin_reaches_doctor_form_witness:
  "app_reachable (app_run app_init admin_login_events) \<and>
   pending (app_run app_init admin_login_events) = [] \<and>
   top_route (app_run app_init admin_login_events) = MainTabs \<and>
   \<not> show_login_modal (welcome_state (app_run app_init admin_login_events)) \<and>
   app_admin (app_run app_init admin_login_events) \<and>
   tab (nav (app_step (app_run app_init admin_login_events) (TabPress DoctorManagement))) = DoctorManagement"
proof -
  let ?s = "app_run app_init admin_login_events"
  have r: "app_reachable ?s" by (rule app_reachable_run [OF app_reachable.init])
  have p: "pending ?s = []" by code_simp
  have t: "top_route ?s = MainTabs" by code_simp
  have m: "\<not> show_login_modal (welcome_state ?s)" by code_simp
  have a: "app_admin ?s" by code_simp
  from app_admin_reaches_doctor_form [OF r p t m a] r p t m a show ?thesis by simp
qed

text \<open>
  C25. The top padding of the root view is the platform's status-bar height (or 0
  when it is undefined) on Android and 0 elsewhere: the fixed iOS height of
  \<open>getStatusBarHeight\<close> never reaches the layout.
\<close>

theorem app_padding_top_status_bar:
  "app_padding_top p w = (if os p = Android then or_zero (status_bar_current_height p) else 0)"
  by (simp add: app_padding_top_def metrics_of_def get_status_bar_height_def)

text \<open>
  C28. No screen calls \<open>signOut\<close>: once someone is signed in, every event of the
  running application leaves some identity signed in, so the spec's sign-out
  transitions cannot be reached from the interface.
\<close>

theorem app_session_never_ends:
  assumes "user (auth s) \<noteq> None"
  shows "user (auth (app_step s ev)) \<noteq> None"
  using auth_app_step_cases [of s ev] assms by (auto simp: sign_in_eq)

theorem app_session_never_ends_witness:
  "user (auth (app_run app_init admin_login_events)) \<noteq> None \<and>
   user (auth (app_step (app_run app_init admin_login_events) (TabPress DoctorManagement))) \<noteq> None"
proof -
  have u: "user (auth (app_run app_init admin_login_events)) \<noteq> None" by code_simp
  from app_session_never_ends [OF u, of "TabPress DoctorManagement"] u show ?thesis by blast
qed

text \<open>
  C29. The doctor screen keeps what was typed into it when the administrator
  switches to \<open>Home\<close> and back: tab screens stay mounted, and the doctor tab is
  focused again without a notice.
\<close>

theorem app_tab_switch_keeps_doctor_form:
  assumes "pending s = []" and "top_route s = MainTabs" and "\<not> show_login_modal (welcome_state s)"
    and "tab (nav s) = DoctorManagement" and "doctor s = Some d" and "app_admin s"
  shows "doctor (app_run s [TabPress Home, TabPress DoctorManagement]) = Some d \<and>
         tab (nav (app_run s [TabPress Home, TabPress DoctorManagement])) = DoctorManagement \<and>
         pending (app_run s [TabPress Home, TabPress DoctorManagement]) = []"
  using assms
  by (simp add: app_step_def app_tab_press_def Let_def main_tabs_def top_route_def app_admin_def)

theorem app_tab_switch_keeps_doctor_form_witness:
  "map_option (df_name \<circ> dform)
     (doctor (app_run (app_run app_init typed_doctor_events) [TabPress Home, TabPress DoctorManagement]))
   = Some ''Ana''"
proof -
  let ?s = "app_run app_init typed_doctor_events"
  have h: "pending ?s = []" "top_route ?s = MainTabs" "\<not> show_login_modal (welcome_state ?s)"
    "tab (nav ?s) = DoctorManagement" "app_admin ?s" by code_simp+
  have d: "doctor ?s = Some (doctor_init\<lparr>dform := empty_doctor_form\<lparr>df_name := ''Ana''\<rparr>\<rparr>)" by code_simp
  from app_tab_switch_keeps_doctor_form [OF h(1-4) d h(5)] show ?thesis by simp
qed

text \<open>
  C30. Leaving the sign-up screen with its back button returns to the tabs and
  unmounts the screen: what was typed into the patient form is discarded.
\<close>

theorem app_signup_back_discards_form:
  assumes "app_reachable s" and "pending s = []" and "top_route s = SignUpRoute"
  shows "signup (app_step s (SignUpEv SuBack)) = None \<and>
         top_route (app_step s (SignUpEv SuBack)) = MainTabs"
proof -
  have inv: "app_inv s" by (rule app_reachable_inv [OF assms(1)])
  then have wf: "nav_wf (app_admin s) (nav s)"
    and su: "signup s \<noteq> None \<longleftrightarrow> SignUpRoute \<in> set (stack (nav s))"
    by (simp_all add: app_inv_def)
  have st: "stack (nav s) = [MainTabs, SignUpRoute]"
    using nav_wf_stack_shape [OF wf] assms(3) by (auto simp: top_route_def)
  with su obtain su' where "signup s = Some su'" by auto
  with st assms(2,3) show ?thesis
    by (simp add: app_step_def app_signup_def Let_def handler_defs after_nav_def sync_signup_def
        nav_apply_def top_route_def raise_alerts_def)
qed

theorem app_signup_back_discards_form_witness:
  "app_reachable (app_run app_init to_signup_events) \<and>
   signup (app_step (app_run app_init to_signup_events) (SignUpEv SuBack)) = None"
proof -
  let ?s = "app_run app_init to_signup_events"
  have r: "app_reachable ?s" by (rule app_reachable_run [OF app_reachable.init])
  have p: "pending ?s = []" "top_route ?s = SignUpRoute" by code_simp+
  from app_signup_back_discards_form [OF r p] r show ?thesis by simp
qed

text \<open>
  C12. Submitting the patient form does nothing in the running application: from
  any reachable state showing the sign-up screen with no notice open, the
  \<open>Cadastrar\<close> button leaves the whole application state as it was, so an
  empty form or different passwords raise no notice and a filled form is neither
  registered nor cleared (the spec asks for validation notices and a reset).
\<close>

theorem app_patient_submit_no_effect:
  assumes "app_reachable s" and "pending s = []" and "top_route s = SignUpRoute"
  shows "app_step s (SignUpEv SuSubmit) = s\<lparr>foreground := True\<rparr>"
proof -
  have inv: "app_inv s" by (rule app_reachable_inv [OF assms(1)])
  then have wf: "nav_wf (app_admin s) (nav s)"
    and su: "signup s \<noteq> None \<longleftrightarrow> SignUpRoute \<in> set (stack (nav s))"
    by (simp_all add: app_inv_def)
  have st: "stack (nav s) = [MainTabs, SignUpRoute]"
    using nav_wf_stack_shape [OF wf] assms(3) by (auto simp: top_route_def)
  with su obtain su' where "signup s = Some su'" by auto
  with st assms(2,3) show ?thesis
    by (simp add: app_step_def app_signup_def Let_def handler_defs after_nav_def sync_signup_def
        raise_alerts_def)
qed

theorem app_patient_submit_no_effect_witness:
  "app_reachable (app_run app_init (to_signup_events @
     [SignUpEv (SuChangeText SuPassword ''a''), SignUpEv (SuChangeText SuConfirmPassword ''b'')])) \<and>
   pending (app_step (app_run app_init (to_signup_events @
     [SignUpEv (SuChangeText SuPassword ''a''), SignUpEv (SuChangeText SuConfirmPassword ''b'')]))
     (SignUpEv SuSubmit)) = [] \<and>
   map_option (pf_password \<circ> form) (signup (app_step (app_run app_init (to_signup_events @
     [SignUpEv (SuChangeText SuPassword ''a''), SignUpEv (SuChangeText SuConfirmPassword ''b'')]))
     (SignUpEv SuSubmit))) = Some ''a''"
proof -
  let ?s = "app_run app_init (to_signup_events @
     [SignUpEv (SuChangeText SuPassword ''a''), SignUpEv (SuChangeText SuConfirmPassword ''b'')])"
  have r: "app_reachable ?s" by (rule app_reachable_run [OF app_reachable.init])
  have p: "pending ?s = []" and t: "top_route ?s = SignUpRoute"
    and f: "map_option (pf_password \<circ> form) (signup ?s) = Some ''a''"
    by code_simp+
  from app_patient_submit_no_effect [OF r p t] r p f show ?thesis by simp
qed

text \<open>
  C31. The Android back button, with no notice open, closes the login overlay if it
  is up; otherwise it leaves the sign-up screen (discarding its form), or moves
  from the doctor tab to \<open>Home\<close> (keeping the doctor form); on \<open>Home\<close> with
  nothing open no navigator handles it, and React Native's \<open>exitApp\<close> sends the
  app to the background with the rest of its state unchanged.
\<close>

theorem app_hardware_back_cases:
  assumes "app_reachable s" and "pending s = []"
  shows "app_step s HardwareBack =
    (if top_route s = SignUpRoute
     then s\<lparr>nav := (nav s)\<lparr>stack := [MainTabs]\<rparr>, signup := None, foreground := True\<rparr>
     else if tab (nav s) = Home \<and> show_login_modal (welcome_state s)
     then s\<lparr>welcome_state := (welcome_state s)\<lparr>show_login_modal := False\<rparr>, foreground := True\<rparr>
     else if tab (nav s) = DoctorManagement then s\<lparr>nav := (nav s)\<lparr>tab := Home\<rparr>, foreground := True\<rparr>
     else s\<lparr>foreground := False\<rparr>)"
proof -
  have inv: "app_inv s" by (rule app_reachable_inv [OF assms(1)])
  then have wf: "nav_wf (app_admin s) (nav s)"
    and su: "signup s \<noteq> None \<longleftrightarrow> SignUpRoute \<in> set (stack (nav s))"
    by (simp_all add: app_inv_def)
  consider (main) "stack (nav s) = [MainTabs]" | (sign) "stack (nav s) = [MainTabs, SignUpRoute]"
    using nav_wf_stack_shape [OF wf] by blast
  then show ?thesis
  proof cases
    case main
    then have t: "top_route s = MainTabs" and n: "signup s = None"
      using su by (simp_all add: top_route_def)
    show ?thesis
    proof (cases "tab (nav s)")
      case Home
      with main t n assms(2) show ?thesis
        by (simp add: app_step_def app_hardware_back_def handler_defs main_tabs_def)
    next
      case DoctorManagement
      with main t n assms(2) show ?thesis
        by (simp add: app_step_def app_hardware_back_def main_tabs_def after_nav_def sync_signup_def)
    qed
  next
    case sign
    then have t: "top_route s = SignUpRoute"
      by (simp add: top_route_def)
    with sign assms(2) show ?thesis
      by (simp add: app_step_def app_hardware_back_def after_nav_def sync_signup_def)
  qed
qed

theorem app_hardware_back_cases_witness:
  "app_reachable (app_run app_init admin_login_events) \<and>
   pending (app_run app_init admin_login_events) = [] \<and>
   \<not> foreground (app_step (app_run app_init admin_login_events) HardwareBack) \<and>
   auth (app_step (app_run app_init admin_login_events) HardwareBack) = auth (app_run app_init admin_login_events)"
proof -
  let ?s = "app_run app_init admin_login_events"
  have r: "app_reachable ?s" by (rule app_reachable_run [OF app_reachable.init])
  have p: "pending ?s = []" and t: "top_route ?s = MainTabs" and h: "tab (nav ?s) = Home"
    and m: "\<not> show_login_modal (welcome_state ?s)"
    by code_simp+
  from app_hardware_back_cases [OF r p] t h m r p show ?thesis by simp
qed

text \<open>
  C32. The application leaves the foreground only from the \<open>Home\<close> tab at the
  bottom of the stack, with no notice and no login overlay open: in every reachable
  state that is in the background, that is what the screen showed.
\<close>

theorem app_background_only_from_home:
  assumes "app_reachable s" and "\<not> foreground s"
  shows "pending s = [] \<and> top_route s = MainTabs \<and> tab (nav s) = Home \<and>
         \<not> show_login_modal (welcome_state s)"
  using assms
proof (induction rule: app_reachable.induct)
  case init
  then show ?case by (simp add: app_init_def)
next
  case (step s0 ev)
  let ?s = "s0\<lparr>foreground := True\<rparr>"
  have wf: "nav_wf (app_admin s0) (nav s0)"
    using app_reachable_inv [OF step.hyps(1)] by (simp add: app_inv_def)
  have fg: "foreground ?s" by simp
  have nf: "\<not> foreground (app_input ?s ev)"
    using step.prems by (simp add: app_step_def)
  from app_input_leaves_foreground [OF fg nf]
  have p: "pending ?s = []"
    and ov: "\<not> (top_route ?s = MainTabs \<and> tab (nav ?s) = Home \<and> show_login_modal (welcome_state ?s))"
    and d: "nav_dispatch (app_admin ?s) (if top_route ?s = SignUpRoute then FromStack else FromTab)
              GoBack (nav ?s) = None"
    and s: "app_input ?s ev = ?s\<lparr>foreground := False\<rparr>"
    by blast+
  then have p: "pending s0 = []"
    and ov: "\<not> (top_route s0 = MainTabs \<and> tab (nav s0) = Home \<and> show_login_modal (welcome_state s0))"
    and d: "nav_dispatch (app_admin s0) (if top_route s0 = SignUpRoute then FromStack else FromTab)
              GoBack (nav s0) = None"
    and s: "app_step s0 ev = s0\<lparr>foreground := False\<rparr>"
    by (simp_all add: app_step_def del: nav_dispatch.simps)
  have st: "stack (nav s0) = [MainTabs]"
    using nav_wf_stack_shape [OF wf] d by (auto simp: top_route_def split: option.splits)
  then have t: "top_route s0 = MainTabs" by (simp add: top_route_def)
  with d have "tab (nav s0) = Home"
    by (auto simp: main_tabs_def split: option.splits if_splits)
  with s p t ov show ?case by simp
qed

theorem app_background_only_from_home_witness:
  "app_reachable (app_run app_init (admin_login_events @ [HardwareBack])) \<and>
   \<not> foreground (app_run app_init (admin_login_events @ [HardwareBack])) \<and>
   tab (nav (app_run app_init (admin_login_events @ [HardwareBack]))) = Home"
proof -
  let ?s = "app_run app_init (admin_login_events @ [HardwareBack])"
  have r: "app_reachable ?s" by (rule app_reachable_run [OF app_reachable.init])
  have f: "\<not> foreground ?s" by code_simp
  from app_background_only_from_home [OF r f] r f show ?thesis by simp
qed

end
