(* ===== verification/Theme.thy ===== *)
theory Theme
  imports Prelude
begin

text \<open>
  The design tokens of \<open>src/themes/colors.ts\<close>: the three exported objects
  \<open>colors\<close>, \<open>fonts\<close> and \<open>spacing\<close>, each a record with the source's keys
  (\<open>colors.gray\<close> is the nested record \<open>gray_scale\<close>, its numeric keys written
  \<open>gray_100\<close> \<open>\<dots>\<close> \<open>gray_900\<close>). Colours are the strings of the source. The
  style sheets of \<open>Styles\<close> refer to these values.
\<close>

subsection \<open>Colours\<close>

record gray_scale =
  gray_100 :: js_string
  gray_200 :: js_string
  gray_300 :: js_string
  gray_400 :: js_string
  gray_500 :: js_string
  gray_600 :: js_string
  gray_700 :: js_string
  gray_800 :: js_string
  gray_900 :: js_string

record theme_colors =
  primary :: js_string
  secondary :: js_string
  background :: js_string
  white :: js_string
  black :: js_string
  gray :: gray_scale
  success :: js_string
  error :: js_string
  warning :: js_string

definition colors :: theme_colors where
  "colors =
     \<lparr>primary = ''#007AFF'', secondary = ''#5856D6'', background = ''#F2F2F7'',
      white = ''#FFFFFF'', black = ''#000000'',
      gray = \<lparr>gray_100 = ''#F2F2F7'', gray_200 = ''#E5E5EA'', gray_300 = ''#D1D1D6'',
              gray_400 = ''#C7C7CC'', gray_500 = ''#AEAEB2'', gray_600 = ''#8E8E93'',
              gray_700 = ''#636366'', gray_800 = ''#48484A'', gray_900 = ''#3A3A3C''\<rparr>,
      success = ''#34C759'', error = ''#FF3B30'', warning = ''#FFCC00''\<rparr>"

subsection \<open>Fonts and spacing\<close>

record font_sizes =
  fs_xs :: real
  fs_sm :: real
  fs_md :: real
  fs_lg :: real
  fs_xl :: real
  fs_xxl :: real
  fs_xxxl :: real

record theme_fonts =
  font_regular :: js_string
  font_medium :: js_string
  font_bold :: js_string
  sizes :: font_sizes

definition fonts :: theme_fonts where
  "fonts =
     \<lparr>font_regular = ''System'', font_medium = ''System-Medium'', font_bold = ''System-Bold'',
      sizes = \<lparr>fs_xs = 12, fs_sm = 14, fs_md = 16, fs_lg = 18, fs_xl = 20, fs_xxl = 24,
               fs_xxxl = 32\<rparr>\<rparr>"

record theme_spacing =
  sp_xs :: real
  sp_sm :: real
  sp_md :: real
  sp_lg :: real
  sp_xl :: real
  sp_xxl :: real

definition spacing :: theme_spacing where
  "spacing = \<lparr>sp_xs = 4, sp_sm = 8, sp_md = 16, sp_lg = 24, sp_xl = 32, sp_xxl = 40\<rparr>"

end
