(* ===== verification/Styles.thy ===== *)
theory Styles
  imports Theme Dimensions
begin

text \<open>
  The style sheets of the screens and of the header. Each \<open>StyleSheet.create\<close>
  call of the source is a \<open>sheet_decl\<close>: the style names with, for each, the
  declared properties, every value written as the source writes it
  (\<open>style_expr\<close>: a literal or theme number, a string, or a call of
  \<open>scaleWidth\<close>, \<open>scaleHeight\<close> or \<open>moderateScale\<close> with its argument).
  \<open>style_sheet_create\<close> evaluates the calls against the window the scaling module
  read at load time, as the module does when it is first imported. A style array
  in JSX (\<open>[styles.a, cond && styles.b]\<close>) is flattened with later entries
  overriding earlier ones (\<open>flatten_styles\<close>, \<open>cond_style\<close>);
  \<open>Platform.select({ios: ...})\<close> spreads its \<open>ios\<close> object on iOS and nothing
  elsewhere (\<open>platform_select_ios\<close>).
\<close>

subsection \<open>Style values\<close>

datatype style_expr =
    Lit real
  | Str js_string
  | ScaleW real
  | ScaleH real
  | Moderate real

datatype style_value = Num real | Txt js_string

type_synonym style_decl = "(js_string \<times> style_expr) list"
type_synonym sheet_decl = "(js_string \<times> style_decl) list"
type_synonym style = "(js_string \<times> style_value) list"
type_synonym sheet = "(js_string \<times> style) list"

fun eval_style_expr :: "window \<Rightarrow> style_expr \<Rightarrow> style_value" where
  "eval_style_expr w (Lit n) = Num n"
| "eval_style_expr w (Str s) = Txt s"
| "eval_style_expr w (ScaleW n) = Num (scale_width w n)"
| "eval_style_expr w (ScaleH n) = Num (scale_height w n)"
| "eval_style_expr w (Moderate n) = Num (moderate_scale_default w n)"

definition style_sheet_create :: "window \<Rightarrow> sheet_decl \<Rightarrow> sheet" where
  "style_sheet_create w d = map (\<lambda>(k, decl). (k, map (\<lambda>(p, e). (p, eval_style_expr w e)) decl)) d"

text \<open>\<open>styles.k\<close>: a name the sheet does not declare is \<open>undefined\<close>, no style.\<close>

definition sheet_style :: "sheet \<Rightarrow> js_string \<Rightarrow> style" where
  "sheet_style sh k = (case map_of sh k of None \<Rightarrow> [] | Some st \<Rightarrow> st)"

definition cond_style :: "bool \<Rightarrow> style \<Rightarrow> style" where
  "cond_style b st = (if b then st else [])"

definition flatten_styles :: "style list \<Rightarrow> style" where
  "flatten_styles sts = concat sts"

text \<open>The value a property takes: the last declaration wins.\<close>

definition style_prop :: "style \<Rightarrow> js_string \<Rightarrow> style_value option" where
  "style_prop st p = map_of (rev st) p"

definition style_number :: "style \<Rightarrow> js_string \<Rightarrow> real option" where
  "style_number st p = (case style_prop st p of Some (Num x) \<Rightarrow> Some x | _ \<Rightarrow> None)"

definition platform_select_ios :: "platform_os \<Rightarrow> style_decl \<Rightarrow> style_decl" where
  "platform_select_ios pos d = (if pos = IOS then d else [])"

subsection \<open>The header (\<open>src/components/Header.tsx\<close>)\<close>

definition header_sheet :: sheet_decl where
  "header_sheet =
     [(''container'',
        [(''height'', Lit 56), (''backgroundColor'', Str (white colors)),
         (''flexDirection'', Str ''row''), (''alignItems'', Str ''center''),
         (''paddingHorizontal'', Lit (sp_md spacing)), (''borderBottomWidth'', Lit 1),
         (''borderBottomColor'', Str (gray_200 (gray colors)))]),
      (''leftContainer'', [(''width'', Lit 40), (''justifyContent'', Str ''center'')]),
      (''backButton'', [(''padding'', Lit (sp_xs spacing))]),
      (''title'',
        [(''flex'', Lit 1), (''fontSize'', Lit (fs_lg (sizes fonts))),
         (''fontFamily'', Str (font_medium fonts)), (''color'', Str (black colors)),
         (''textAlign'', Str ''center'')]),
      (''rightContainer'', [(''width'', Lit 40), (''alignItems'', Str ''flex-end'')])]"

subsection \<open>The patient sign-up screen (\<open>src/screens/SignUp.tsx\<close>)\<close>

definition signup_sheet :: "platform_os \<Rightarrow> sheet_decl" where
  "signup_sheet pos =
     [(''container'', [(''flex'', Lit 1), (''backgroundColor'', Str (white colors))]),
      (''content'', [(''flex'', Lit 1)]),
      (''scrollContent'', [(''padding'', ScaleW (sp_md spacing))]),
      (''title'',
        [(''fontSize'', Moderate (fs_xxl (sizes fonts))), (''fontFamily'', Str (font_bold fonts)),
         (''color'', Str (black colors)), (''marginBottom'', ScaleH (sp_xs spacing))]),
      (''subtitle'',
        [(''fontSize'', Moderate (fs_md (sizes fonts))), (''color'', Str (gray_600 (gray colors))),
         (''marginBottom'', ScaleH (sp_xl spacing))]),
      (''form'', [(''gap'', ScaleH (sp_md spacing))]),
      (''inputContainer'',
        [(''flexDirection'', Str ''row''), (''alignItems'', Str ''center''),
         (''backgroundColor'', Str (gray_100 (gray colors))), (''borderRadius'', Moderate 8),
         (''paddingHorizontal'', ScaleW (sp_md spacing)), (''height'', ScaleH 48)]),
      (''input'',
        [(''flex'', Lit 1), (''marginLeft'', ScaleW (sp_sm spacing)),
         (''fontSize'', Moderate (fs_md (sizes fonts))), (''color'', Str (black colors)),
         (''height'', Str ''100%'')] @ platform_select_ios pos [(''padding'', Lit 0)]),
      (''button'',
        [(''backgroundColor'', Str (primary colors)), (''height'', ScaleH 48),
         (''borderRadius'', Moderate 8), (''justifyContent'', Str ''center''),
         (''alignItems'', Str ''center''), (''marginTop'', ScaleH (sp_xl spacing))]),
      (''buttonText'',
        [(''color'', Str (white colors)), (''fontSize'', Moderate (fs_md (sizes fonts))),
         (''fontFamily'', Str (font_medium fonts))]),
      (''loginButton'', [(''marginTop'', ScaleH (sp_md spacing)), (''alignItems'', Str ''center'')]),
      (''loginText'',
        [(''fontSize'', Moderate (fs_md (sizes fonts))), (''color'', Str (gray_600 (gray colors)))]),
      (''loginLink'', [(''color'', Str (primary colors)), (''fontFamily'', Str (font_medium fonts))])]"

subsection \<open>The doctor registration screen (\<open>src/screens/DoctorSignUp.tsx\<close>)\<close>

definition doctor_sheet :: "platform_os \<Rightarrow> sheet_decl" where
  "doctor_sheet pos =
     [(''container'', [(''flex'', Lit 1), (''backgroundColor'', Str (white colors))]),
      (''content'', [(''flex'', Lit 1)]),
      (''scrollContent'', [(''padding'', ScaleW (sp_md spacing))]),
      (''title'',
        [(''fontSize'', Moderate (fs_xxl (sizes fonts))), (''fontFamily'', Str (font_bold fonts)),
         (''color'', Str (black colors)), (''marginBottom'', ScaleH (sp_xs spacing))]),
      (''subtitle'',
        [(''fontSize'', Moderate (fs_md (sizes fonts))), (''color'', Str (gray_600 (gray colors))),
         (''marginBottom'', ScaleH (sp_xl spacing))]),
      (''form'', [(''gap'', ScaleH (sp_md spacing))]),
      (''inputContainer'',
        [(''flexDirection'', Str ''row''), (''alignItems'', Str ''center''),
         (''backgroundColor'', Str (gray_100 (gray colors))), (''borderRadius'', Moderate 8),
         (''paddingHorizontal'', ScaleW (sp_md spacing)), (''height'', ScaleH 48)]),
      (''input'',
        [(''flex'', Lit 1), (''marginLeft'', ScaleW (sp_sm spacing)),
         (''fontSize'', Moderate (fs_md (sizes fonts))), (''color'', Str (black colors)),
         (''height'', Str ''100%'')] @ platform_select_ios pos [(''padding'', Lit 0)]),
      (''placeholder'', [(''color'', Str (gray_600 (gray colors)))]),
      (''specialtiesList'',
        [(''backgroundColor'', Str (white colors)), (''borderRadius'', Moderate 8),
         (''marginTop'', ScaleH (sp_xs spacing)), (''borderWidth'', Lit 1),
         (''borderColor'', Str (gray_200 (gray colors))), (''maxHeight'', ScaleH 200)]),
      (''specialtyItem'',
        [(''paddingVertical'', ScaleH (sp_sm spacing)), (''paddingHorizontal'', ScaleW (sp_md spacing)),
         (''borderBottomWidth'', Lit 1), (''borderBottomColor'', Str (gray_200 (gray colors)))]),
      (''specialtyText'',
        [(''fontSize'', Moderate (fs_md (sizes fonts))), (''color'', Str (black colors))]),
      (''button'',
        [(''backgroundColor'', Str (primary colors)), (''height'', ScaleH 48),
         (''borderRadius'', Moderate 8), (''justifyContent'', Str ''center''),
         (''alignItems'', Str ''center''), (''marginTop'', ScaleH (sp_xl spacing))]),
      (''buttonText'',
        [(''color'', Str (white colors)), (''fontSize'', Moderate (fs_md (sizes fonts))),
         (''fontFamily'', Str (font_medium fonts))])]"

subsection \<open>The welcome screen (\<open>src/screens/Welcome.tsx\<close>)\<close>

definition welcome_sheet :: sheet_decl where
  "welcome_sheet =
     [(''container'', [(''flex'', Lit 1), (''backgroundColor'', Str (background colors))]),
      (''content'', [(''flex'', Lit 1)]),
      (''header'', [(''backgroundColor'', Str (white colors)), (''padding'', ScaleW (sp_md spacing))]),
      (''headerTop'',
        [(''flexDirection'', Str ''row''), (''justifyContent'', Str ''space-between''),
         (''alignItems'', Str ''center''), (''marginBottom'', ScaleH (sp_xs spacing))]),
      (''loginButton'', [(''padding'', ScaleW (sp_xs spacing))]),
      (''title'',
        [(''fontSize'', Moderate (fs_xxl (sizes fonts))), (''fontFamily'', Str (font_bold fonts)),
         (''color'', Str (black colors))]),
      (''subtitle'',
        [(''fontSize'', Moderate (fs_md (sizes fonts))), (''color'', Str (gray_600 (gray colors))),
         (''marginBottom'', ScaleH (sp_md spacing))]),
      (''searchContainer'',
        [(''flexDirection'', Str ''row''), (''alignItems'', Str ''center''),
         (''backgroundColor'', Str (gray_100 (gray colors))), (''borderRadius'', Moderate 8),
         (''paddingHorizontal'', ScaleW (sp_md spacing))]),
      (''searchIcon'', [(''marginRight'', ScaleW (sp_sm spacing))]),
      (''searchInput'',
        [(''flex'', Lit 1), (''height'', ScaleH 40), (''fontSize'', Moderate (fs_md (sizes fonts))),
         (''color'', Str (black colors))]),
      (''section'',
        [(''marginTop'', ScaleH (sp_md spacing)), (''padding'', ScaleW (sp_md spacing)),
         (''backgroundColor'', Str (white colors))]),
      (''lastSection'', [(''marginBottom'', ScaleH (sp_md spacing))]),
      (''sectionHeader'',
        [(''flexDirection'', Str ''row''), (''justifyContent'', Str ''space-between''),
         (''alignItems'', Str ''center''), (''marginBottom'', ScaleH (sp_md spacing))]),
      (''sectionTitle'',
        [(''fontSize'', Moderate (fs_lg (sizes fonts))), (''fontFamily'', Str (font_medium fonts)),
         (''color'', Str (black colors))]),
      (''seeAll'', [(''fontSize'', Moderate (fs_sm (sizes fonts))), (''color'', Str (primary colors))]),
      (''specialtiesContainer'',
        [(''flexDirection'', Str ''row''), (''paddingVertical'', ScaleH (sp_sm spacing))]),
      (''specialtyButton'',
        [(''paddingHorizontal'', ScaleW (sp_md spacing)), (''paddingVertical'', ScaleH (sp_sm spacing)),
         (''borderRadius'', Moderate 20), (''backgroundColor'', Str (gray_100 (gray colors))),
         (''marginRight'', ScaleW (sp_sm spacing))]),
      (''specialtyButtonActive'', [(''backgroundColor'', Str (primary colors))]),
      (''specialtyText'',
        [(''fontSize'', Moderate (fs_sm (sizes fonts))), (''color'', Str (gray_700 (gray colors)))]),
      (''specialtyTextActive'', [(''color'', Str (white colors))]),
      (''modalContainer'',
        [(''flex'', Lit 1), (''backgroundColor'', Str ''rgba(0, 0, 0, 0.5)''),
         (''justifyContent'', Str ''flex-end'')]),
      (''modalContent'',
        [(''backgroundColor'', Str (white colors)), (''borderTopLeftRadius'', Moderate 20),
         (''borderTopRightRadius'', Moderate 20), (''padding'', ScaleW (sp_md spacing))]),
      (''modalHeader'',
        [(''flexDirection'', Str ''row''), (''justifyContent'', Str ''space-between''),
         (''alignItems'', Str ''center''), (''marginBottom'', ScaleH (sp_xl spacing))]),
      (''modalTitle'',
        [(''fontSize'', Moderate (fs_xl (sizes fonts))), (''fontFamily'', Str (font_bold fonts)),
         (''color'', Str (black colors))]),
      (''modalForm'', [(''gap'', ScaleH (sp_md spacing))]),
      (''inputContainer'',
        [(''flexDirection'', Str ''row''), (''alignItems'', Str ''center''),
         (''backgroundColor'', Str (gray_100 (gray colors))), (''borderRadius'', Moderate 8),
         (''paddingHorizontal'', ScaleW (sp_md spacing)), (''height'', ScaleH 48)]),
      (''input'',
        [(''flex'', Lit 1), (''marginLeft'', ScaleW (sp_sm spacing)),
         (''fontSize'', Moderate (fs_md (sizes fonts))), (''color'', Str (black colors))]),
      (''modalButton'',
        [(''backgroundColor'', Str (primary colors)), (''height'', ScaleH 48),
         (''borderRadius'', Moderate 8), (''justifyContent'', Str ''center''),
         (''alignItems'', Str ''center''), (''marginTop'', ScaleH (sp_sm spacing))]),
      (''modalButtonText'',
        [(''color'', Str (white colors)), (''fontSize'', Moderate (fs_md (sizes fonts))),
         (''fontFamily'', Str (font_medium fonts))]),
      (''signUpButton'', [(''alignItems'', Str ''center''), (''marginTop'', ScaleH (sp_md spacing))]),
      (''signUpText'',
        [(''fontSize'', Moderate (fs_md (sizes fonts))), (''color'', Str (gray_600 (gray colors)))]),
      (''signUpLink'', [(''color'', Str (primary colors)), (''fontFamily'', Str (font_medium fonts))])]"

text \<open>
  The specialty chips of the welcome screen: the literal list of labels and, for
  the chip at \<open>index\<close>, the flattened button and text styles
  (\<open>[styles.specialtyButton, index === 0 && styles.specialtyButtonActive]\<close>).
  No chip has an \<open>onPress\<close>.
\<close>

definition welcome_specialty_labels :: "js_string list" where
  "welcome_specialty_labels =
     [''Todas'', ''Cardiologia'', ''Dermatologia'', ''Neurologia'', ''Ortopedia'', ''Pediatria'']"

definition welcome_chip_styles :: "window \<Rightarrow> nat \<Rightarrow> style \<times> style" where
  "welcome_chip_styles w index =
     (let styles = style_sheet_create w welcome_sheet in
      (flatten_styles [sheet_style styles ''specialtyButton'',
                       cond_style (index = 0) (sheet_style styles ''specialtyButtonActive'')],
       flatten_styles [sheet_style styles ''specialtyText'',
                       cond_style (index = 0) (sheet_style styles ''specialtyTextActive'')]))"

lemmas style_defs = style_sheet_create_def sheet_style_def style_prop_def style_number_def
  cond_style_def flatten_styles_def platform_select_ios_def

subsection \<open>Lemmas\<close>

text \<open>In a flattened style array a later entry overrides an earlier one.\<close>

lemma style_prop_append:
  "style_prop (a @ b) p = (case style_prop b p of None \<Rightarrow> style_prop a p | Some v \<Rightarrow> Some v)"
  by (simp add: style_prop_def map_add_def split: option.splits)

subsection \<open>Properties\<close>

text \<open>
  C8. The header sets its title in the theme's \<open>lg\<close> size (18) unscaled, on
  every window, while the screens scale their body text with \<open>moderateScale\<close>:
  the header title renders smaller than the sign-up form's body text exactly on
  windows wider than 468.75 units, although the theme ranks \<open>lg\<close> above \<open>md\<close>.
\<close>

theorem header_title_unscaled:
  "style_number (sheet_style (style_sheet_create w header_sheet) ''title'') ''fontSize'' = Some (fs_lg (sizes fonts)) \<and>
   ((case (style_number (sheet_style (style_sheet_create w header_sheet) ''title'') ''fontSize'',
           style_number (sheet_style (style_sheet_create w (signup_sheet pos)) ''subtitle'') ''fontSize'') of
       (Some h, Some b) \<Rightarrow> h < b | _ \<Rightarrow> False) \<longleftrightarrow> 1875 / 4 < width w)"
  by (simp add: style_defs header_sheet_def signup_sheet_def fonts_def scale_defs mult.commute)

text \<open>
  C9. Of the welcome screen's specialty chips exactly the first (\<open>Todas\<close>) is
  highlighted, on every window: its button has the primary colour and its label
  is white; every other chip has the light gray button and the dark gray label.
  No chip can change this, since none has a press handler.
\<close>

theorem welcome_chip_highlight:
  "style_prop (fst (welcome_chip_styles w i)) ''backgroundColor'' =
     Some (Txt (if i = 0 then primary colors else gray_100 (gray colors))) \<and>
   style_prop (snd (welcome_chip_styles w i)) ''color'' =
     Some (Txt (if i = 0 then white colors else gray_700 (gray colors)))"
  by (simp add: welcome_chip_styles_def style_defs style_prop_append welcome_sheet_def)

end
