(* ===== verification/Spec2Isabelle.thy ===== *)
theory Spec2Isabelle
  imports App Styles
begin

text \<open>
  \<^bold>\<open>A verification model of the Consulta Ja app (src/consulta_ja).\<close>

  The program is a React Native front end for booking medical appointments. Its
  behaviour lives in three small pieces of logic and the screens that use them:
  \<^item> the session context \<open>src/contexts/AuthContext.tsx\<close> (\<open>AuthProvider\<close>,
    \<open>useAuth\<close>): at most one user, \<open>signIn\<close> that makes the fixed address an
    administrator and everyone else a patient, \<open>signOut\<close>, the derived
    \<open>isAdmin\<close>;
  \<^item> the navigators \<open>src/navigation.tsx\<close>: a stack (\<open>MainTabs\<close>, \<open>SignUp\<close>)
    whose first screen is a tab navigator with \<open>Home\<close> (the \<open>Welcome\<close> screen)
    and, for administrators only, \<open>DoctorManagement\<close> (the \<open>DoctorSignUp\<close>
    screen);
  \<^item> the scaling helpers \<open>src/utils/dimensions.ts\<close>;
  \<^item> the screens \<open>Welcome.tsx\<close> (login overlay), \<open>SignUp.tsx\<close> (patient form)
    and \<open>DoctorSignUp.tsx\<close> (doctor form, with its own access check), and the
    root \<open>App.tsx\<close>.
  Screens read the context through \<open>useAuth\<close>, change it through \<open>signIn\<close>,
  raise notices with \<open>Alert.alert\<close> and move through \<open>navigation.goBack\<close> and
  \<open>navigation.navigate\<close>.

  \<^bold>\<open>Theories.\<close>
  \<^item> \<open>Prelude\<close>: JavaScript helpers (string truthiness, the ASCII part of
    \<open>toLowerCase\<close>, \<open>split\<close> with a one-character separator as a
    \<open>function\<close> with a measure termination proof and \<open>split('@')[0]\<close> as its
    first piece, the decimal text of \<open>Date.now()\<close> and its reading back), the notices (\<open>notice\<close>, \<open>alert\<close>), the navigation
    requests (\<open>nav_request\<close>) and the outcome of a handler (\<open>outcome\<close>: next
    state, notices, requests). The named collection \<open>handler_defs\<close> holds the
    unfolding rules of all screen handlers.
  \<^item> \<open>AuthContext\<close>: records \<open>user\<close> and \<open>auth_state\<close> (the provider's two
    \<open>useState\<close>s); \<open>sign_in_body\<close> is the \<open>try\<close> block, \<open>sign_in\<close> adds the
    rethrowing \<open>catch\<close> and the \<open>finally\<close>; a rejection is an \<open>Inl\<close>;
    \<open>sign_out\<close>, \<open>is_admin\<close>; \<open>auth_context\<close> is what \<open>useContext\<close> returns
    (default \<open>{}\<close> or the provider's value) and \<open>use_auth\<close> the hook with its
    guard. \<open>auth_step\<close>/\<open>auth_reachable\<close> make sessions a state machine.
  \<^item> \<open>Dimensions\<close>: \<open>scale_width\<close>, \<open>scale_height\<close>, \<open>moderate_scale\<close>,
    \<open>get_status_bar_height\<close>, \<open>is_iphone_x\<close>, \<open>get_bottom_space\<close>,
    \<open>metrics_of\<close>, over reals, the window and platform as arguments.
  \<^item> \<open>Navigation\<close>: \<open>main_tabs\<close> (the role-dependent tab list of \<open>MainTabs\<close>)
    and \<open>stack_screens\<close>; and, as an environment model of the navigator
    library (not code of this repository), how a request is handled
    (\<open>tab_handle\<close>, \<open>stack_handle\<close>, \<open>nav_dispatch\<close>: the requesting screen's
    navigator first, then its parent, \<open>None\<close> when nobody handles it) and how a
    recomputed tab list moves the focus (\<open>tabs_change\<close>). \<open>screen_request\<close>
    is the interface the screens keep: they only ever ask to go back, to
    \<open>SignUp\<close> or to \<open>Login\<close>.
  \<^item> \<open>Header\<close>: the back button of \<open>Header.tsx\<close> (present only with
    \<open>showBack\<close>, calls \<open>onBack\<close>).
  \<^item> \<open>Theme\<close>: \<open>src/themes/colors.ts\<close> (\<open>colors\<close>, \<open>fonts\<close>,
    \<open>spacing\<close> as records with the source's values).
  \<^item> \<open>Styles\<close>: the \<open>StyleSheet.create\<close> calls of \<open>Header.tsx\<close>,
    \<open>SignUp.tsx\<close>, \<open>DoctorSignUp.tsx\<close> and \<open>Welcome.tsx\<close>
    (\<open>header_sheet\<close>, \<open>signup_sheet\<close>, \<open>doctor_sheet\<close>,
    \<open>welcome_sheet\<close>) with each value written as the source writes it (a
    number, a string, or a call of \<open>scaleWidth\<close>, \<open>scaleHeight\<close>,
    \<open>moderateScale\<close>, \<open>style_expr\<close>), evaluated against the window by
    \<open>style_sheet_create\<close>; JSX style arrays are flattened with the last
    declaration winning (\<open>welcome_chip_styles\<close> for the specialty chips).
  \<^item> \<open>SignUp\<close>, \<open>DoctorSignUp\<close>, \<open>Welcome\<close>: each screen's state as a record
    (form fields prefixed \<open>pf_\<close>, \<open>df_\<close>), one definition per handler, the
    screen's events as a datatype and a step function returning an \<open>outcome\<close>.
    \<open>welcome_handle_login\<close> receives the context as it was when the screen
    last rendered, because the source's closure reads \<open>isAdmin\<close> from there.
  \<^item> \<open>App\<close>: the composed application: \<open>app_state\<close> (provider state,
    navigator state, the mounted screens, the notices on screen), \<open>app_step\<close>
    over \<open>app_event\<close> (the screens' events, tab presses, the OK button of a
    notice and Android's back button), \<open>app_run\<close>, and \<open>app_reachable\<close>. A notice blocks
    input until OK; \<open>SignUp\<close> is mounted while on the stack; the doctor screen
    is mounted on first focus and unmounted when its tab disappears. A back press
    no navigator handles runs React Native's \<open>BackHandler.exitApp\<close>: the app
    leaves the foreground (\<open>foreground\<close>) with its state kept, and the next
    input event is delivered to it on screen again (\<open>app_step\<close> sets
    \<open>foreground\<close> before \<open>app_input\<close> handles the event), as Android 12 and
    later do when the user returns to the task.
  \<^item> this theory: an abstract specification of the session and of the
    destinations (\<open>spec_sign_in\<close>, \<open>spec_session_step\<close>,
    \<open>spec_destinations\<close>) and the refinement theorems relating the code to it.

  \<^bold>\<open>What is shown.\<close> Sign-in decides the role by the lower-cased address only,
  with the patient fields built as the code builds them; the \<open>finally\<close>
  clears \<open>loading\<close>; the result ignores the password and the prior session;
  patient ids are distinct for distinct times (a round trip through the decimal
  text). \<open>moderateScale\<close> keeps the order of sizes on every window. The
  tab list contains the doctor tab exactly for administrators; the doctor form's
  guards in order, its reset on success, the untouched form on refusal, its
  render gate and back navigation, and the specialty invariant. Over all
  reachable application states: the doctor tab is focused only by
  administrators, the doctor screen's own checks never fire, registration
  happens only by an administrator's submit, the navigator state stays well
  formed, an administrator can always reach the form, and the app leaves the
  foreground only from \<open>Home\<close> with nothing open. Several theorems state
  where the code departs from the spec: the patient form validates nothing, its
  login link names a route that does not exist, and the login overlay's
  administrator notice reflects the session before the login. On the presentation
  side: only the first specialty chip is ever highlighted; and the header, unlike the screens,
  does not scale its title, which therefore renders smaller than body text on
  windows wider than 468.75 units.

  \<^bold>\<open>Not modelled.\<close> The layout engine (how flexbox places the styled
  views) and the icon glyphs; icon sizes and colours passed as JSX props;
  \<open>console.log\<close>; the search box and the empty lists of \<open>Welcome\<close> (no
  behaviour); how the platform reads colour strings (they are kept as the
  source's strings); the app's life after \<open>exitApp\<close> on Android before 12,
  where the activity is destroyed and a relaunch starts from \<open>app_init\<close>
  again (already the initial state of \<open>app_reachable\<close>); floating-point rounding (numbers are reals); non-ASCII case mapping
  (characters are bytes, and no non-ASCII character lowers into the admin
  address); concurrency between two pending sign-ins (the body has no
  \<open>await\<close>, so each sign-in completes within its event, and React batches its
  three state updates, so \<open>loading\<close> is never rendered as true). No loop of the
  program needs fuel; every function of the model is total, structural except
  \<open>js_split\<close>, whose recursion on the rest after a separator terminates by the
  length measure.

  \<^bold>\<open>Plan for further work.\<close> (1) Interleavings
  of text input and re-rendering: the form handlers spread the \<open>form\<close> of the
  last render (\<open>setForm({ ...form, x })\<close>), so two inputs between renders
  can lose one; a model with explicit render points would show when. (2) The
  spec's contract for a future asynchronous \<open>signIn\<close> (two-phase start and
  resolve, last write wins) as an abstract machine, and the present code as a
  refinement of it. (3) Traces of the application (lists of states) with the
  notices seen along them, to state the login-overlay behaviour as a property of
  whole sessions.
\<close>

subsection \<open>Abstract specification of the session and its destinations\<close>

text \<open>
  The contract of the session context: a session is the role of the current
  identity, if any; signing in sets the role from the address alone, signing out
  clears it. The destinations a role may reach: \<open>Home\<close> always, the doctor
  registration for administrators.
\<close>

definition spec_sign_in :: "js_string \<Rightarrow> user_type" where
  "spec_sign_in e = (if to_lower_case e = to_lower_case admin_email then Admin else Patient)"

fun spec_session_step :: "user_type option \<Rightarrow> auth_event \<Rightarrow> user_type option" where
  "spec_session_step r (SignInEv now e p) = Some (spec_sign_in e)"
| "spec_session_step r SignOutEv = None"

definition spec_destinations :: "user_type option \<Rightarrow> tab_route set" where
  "spec_destinations r = insert Home (if r = Some Admin then {DoctorManagement} else {})"

definition abs_session :: "auth_state \<Rightarrow> user_type option" where
  "abs_session s = map_option type (user s)"

fun auth_run :: "auth_state \<Rightarrow> auth_event list \<Rightarrow> auth_state" where
  "auth_run s [] = s"
| "auth_run s (ev # evs) = auth_run (auth_step s ev) evs"

lemma admin_email_lower [simp]: "to_lower_case admin_email = admin_email"
  by code_simp

lemma abs_session_step: "abs_session (auth_step s ev) = spec_session_step (abs_session s) ev"
  by (cases ev) (simp_all add: abs_session_def sign_in_eq spec_sign_in_def sign_out_def set_user_def)

subsection \<open>Refinement\<close>

text \<open>
  C26. The session context refines its contract: every run of sign-ins and
  sign-outs, from any state, leaves the role the abstract session machine
  computes, and the tab list the navigator shows is exactly the abstract set of
  destinations of that role.
\<close>

theorem session_refines_spec:
  "abs_session (auth_run s evs) = fold (\<lambda>ev r. spec_session_step r ev) evs (abs_session s) \<and>
   set (main_tabs (is_admin (auth_run s evs))) = spec_destinations (abs_session (auth_run s evs))"
proof -
  have run: "\<And>s. abs_session (auth_run s evs) = fold (\<lambda>ev r. spec_session_step r ev) evs (abs_session s)"
    by (induction evs) (simp_all add: abs_session_step)
  have tabs: "\<And>t. set (main_tabs (is_admin t)) = spec_destinations (abs_session t)"
    by (auto simp: main_tabs_def spec_destinations_def is_admin_def abs_session_def split: option.splits)
  show ?thesis using run tabs by blast
qed

text \<open>
  C27. The composed application refines the session contract as well: in every
  reachable application state the tabs offered are the abstract destinations of
  the current role, and that role is never \<open>doctor\<close>.
\<close>

theorem app_destinations_refine_spec:
  assumes "app_reachable s"
  shows "set (main_tabs (app_admin s)) = spec_destinations (abs_session (auth s)) \<and>
         tab (nav s) \<in> spec_destinations (abs_session (auth s)) \<and>
         abs_session (auth s) \<noteq> Some Doctor"
proof -
  have inv: "app_inv s" by (rule app_reachable_inv [OF assms])
  then have ai: "auth_inv (auth s)" and wf: "nav_wf (app_admin s) (nav s)"
    by (simp_all add: app_inv_def)
  have tabs: "set (main_tabs (app_admin s)) = spec_destinations (abs_session (auth s))"
    by (auto simp: main_tabs_def spec_destinations_def is_admin_def abs_session_def app_admin_def
        split: option.splits)
  moreover have "abs_session (auth s) \<noteq> Some Doctor"
    using ai by (auto simp: auth_inv_def abs_session_def)
  ultimately show ?thesis using wf by (simp add: nav_wf_def)
qed

theorem app_destinations_refine_spec_witness:
  "app_reachable (app_run app_init (admin_login_events @ [TabPress DoctorManagement])) \<and>
   tab (nav (app_run app_init (admin_login_events @ [TabPress DoctorManagement])))
     \<in> spec_destinations (abs_session (auth (app_run app_init (admin_login_events @ [TabPress DoctorManagement]))))"
proof -
  let ?s = "app_run app_init (admin_login_events @ [TabPress DoctorManagement])"
  have r: "app_reachable ?s" by (rule app_reachable_run [OF app_reachable.init])
  from app_destinations_refine_spec [OF r] r show ?thesis by simp
qed

end
